theory Spec2Isabelle
  imports Main
begin

section \<open>JavaScript values and array primitives\<close>

text \<open>
  The dashboard client is JavaScript. The forecast arrays it handles hold JSON values
  (dates as strings, observations as numbers); the model keeps both abstract as the type
  variables \<open>'d\<close> and \<open>'v\<close>. An element of a composed chart series is a value, the
  absence marker \<open>null\<close>, or \<open>undefined\<close> (what an out-of-range index read gives).
  Lists stand for JavaScript arrays, whose length is always below \<open>2^32\<close>; so the only
  way \<open>Array(n)\<close> can raise here is a negative \<open>n\<close>.
\<close>

datatype js_error = RangeError | TypeError

datatype 'v cell = Null | Undefined | Val 'v

text \<open>\<open>Array(n).fill(null)\<close>: a \<open>RangeError\<close> for a negative length.\<close>

definition Array_fill_null :: "int \<Rightarrow> js_error + 'v cell list" where
  "Array_fill_null n = (if n < 0 then Inl RangeError else Inr (replicate (nat n) Null))"

text \<open>
  \<open>arr.slice(start)\<close>: a negative start counts from the end, and the start is clamped
  to the array; the result is a fresh array.
\<close>

definition slice_from :: "int \<Rightarrow> 'a list \<Rightarrow> 'a list" where
  "slice_from start xs =
     (let len = int (length xs);
          k = (if start < 0 then max (len + start) 0 else min start len)
      in drop (nat k) xs)"

text \<open>\<open>arr[i]\<close>: \<open>undefined\<close> outside the array.\<close>

definition index_cell :: "'v list \<Rightarrow> int \<Rightarrow> 'v cell" where
  "index_cell xs i = (if 0 \<le> i \<and> i < int (length xs) then Val (xs ! nat i) else Undefined)"

text \<open>Sequencing of computations that may throw.\<close>

definition bind_js :: "js_error + 'a \<Rightarrow> ('a \<Rightarrow> js_error + 'b) \<Rightarrow> js_error + 'b" where
  "bind_js m f = (case m of Inl e \<Rightarrow> Inl e | Inr x \<Rightarrow> f x)"

section \<open>The forecast result\<close>

text \<open>
  The object the analysis endpoints return: \<open>historical = {dates, values}\<close>,
  \<open>forecast = {dates, values, sigma_1_up, sigma_1_down, sigma_2_up, sigma_2_down}\<close> and
  \<open>comparison\<close> (absent or an object the chart code never looks into, kept abstract
  as \<open>'c\<close>). Field names carry a prefix where two objects use the same name.
\<close>

record ('d, 'v) hist_data =
  h_dates :: "'d list"
  h_values :: "'v list"

record ('d, 'v) forecast_data =
  f_dates :: "'d list"
  f_values :: "'v list"
  sigma_1_up :: "'v list"
  sigma_1_down :: "'v list"
  sigma_2_up :: "'v list"
  sigma_2_down :: "'v list"

record ('d, 'v, 'c) analysis_data =
  historical :: "('d, 'v) hist_data"
  forecast :: "('d, 'v) forecast_data"
  comparison :: "'c option"

text \<open>
  The data model's invariants on a result: the two historical arrays are as long as each
  other, and the forecast values and the four bands have one value per forecast date.
\<close>

definition aligned_hist :: "('d, 'v) hist_data \<Rightarrow> bool" where
  "aligned_hist h = (length (h_values h) = length (h_dates h))"

definition aligned_forecast :: "('d, 'v) forecast_data \<Rightarrow> bool" where
  "aligned_forecast f =
     (length (f_values f) = length (f_dates f) \<and>
      length (sigma_1_up f) = length (f_dates f) \<and>
      length (sigma_1_down f) = length (f_dates f) \<and>
      length (sigma_2_up f) = length (f_dates f) \<and>
      length (sigma_2_down f) = length (f_dates f))"

section \<open>Windowing: the period buttons\<close>

text \<open>
  A period button carries \<open>data-period\<close> (12, 24, 60, or 0 for "Max"), read with
  \<open>parseInt\<close>; the model takes the parsed integer. Both chart paths compute
  \<open>Math.max(0, historical.dates.length - periodValue)\<close> for a positive period.
\<close>

definition histStart :: "int \<Rightarrow> 'd list \<Rightarrow> int" where
  "histStart periodValue dates = max 0 (int (length dates) - periodValue)"

text \<open>
  \<open>renderTileForecastChart\<close>, "Slicing logic for period buttons": the local
  \<open>historical\<close> is replaced by a sliced copy when the period is positive.
\<close>

definition tileHistorical :: "int \<Rightarrow> ('d, 'v) hist_data \<Rightarrow> ('d, 'v) hist_data" where
  "tileHistorical periodValue h =
     (if periodValue > 0 then
        (let hs = histStart periodValue (h_dates h)
         in \<lparr> h_dates = slice_from hs (h_dates h), h_values = slice_from hs (h_values h) \<rparr>)
      else h)"

text \<open>
  \<open>handlePeriodChange\<close>: \<open>histStart\<close> is 0 unless the period is positive, and both
  arrays are always sliced (\<open>slicedHistDates\<close>, \<open>slicedHistValues\<close>).
\<close>

definition slicedHist :: "int \<Rightarrow> ('d, 'v) hist_data \<Rightarrow> ('d, 'v) hist_data" where
  "slicedHist periodValue h =
     (let hs = (if periodValue > 0 then histStart periodValue (h_dates h) else 0)
      in \<lparr> h_dates = slice_from hs (h_dates h), h_values = slice_from hs (h_values h) \<rparr>)"

text \<open>
  The windowed slice a chart is composed from: the sliced history with the forecast of the
  stored result. Neither path reads or writes \<open>comparison\<close> while windowing.
\<close>

definition tileWindow ::
  "('d, 'v, 'c) analysis_data \<Rightarrow> int \<Rightarrow> ('d, 'v) hist_data \<times> ('d, 'v) forecast_data" where
  "tileWindow d periodValue = (tileHistorical periodValue (historical d), forecast d)"

section \<open>Chart composition\<close>

text \<open>
  A Chart.js line chart as far as the forecast code fills it: the shared x axis
  (\<open>data.labels\<close>) and the datasets, each with its label, its \<open>data\<close> array and its
  \<open>fill\<close> option. The labels written with a sigma in the source are named here.
  \<open>destroyed\<close> records a call of \<open>chart.destroy()\<close>.
\<close>

datatype series_label =
  Historical | Forecast | Plus2Sigma | Plus1Sigma | Minus1Sigma | Minus2Sigma

datatype fill_opt = NoFillOption | FillFalse | FillRelative int

record 'v dataset =
  label :: series_label
  data :: "'v cell list"
  fill :: fill_opt

record ('d, 'v) chart =
  labels :: "'d list"
  datasets :: "'v dataset list"
  destroyed :: bool

text \<open>
  The three array expressions every chart path builds from the (windowed) history and
  the forecast:
  \<^verbatim>\<open>allDates = [...historical.dates, ...forecast.dates]\<close>,
  \<^verbatim>\<open>historicalValues = [...historical.values, ...Array(forecast.dates.length).fill(null)]\<close>,
  \<^verbatim>\<open>forecastValues = [...Array(historical.dates.length - 1).fill(null),
      historical.values[historical.values.length - 1], ...forecast.values]\<close>,
  and a band: \<^verbatim>\<open>[...Array(historical.dates.length).fill(null), ...forecast.sigma_X]\<close>.
\<close>

definition allDates :: "('d, 'v) hist_data \<Rightarrow> ('d, 'v) forecast_data \<Rightarrow> 'd list" where
  "allDates h f = h_dates h @ f_dates f"

definition historicalValues ::
  "('d, 'v) hist_data \<Rightarrow> ('d, 'v) forecast_data \<Rightarrow> js_error + 'v cell list" where
  "historicalValues h f =
     bind_js (Array_fill_null (int (length (f_dates f))))
       (\<lambda>pad. Inr (map Val (h_values h) @ pad))"

definition forecastValues ::
  "('d, 'v) hist_data \<Rightarrow> ('d, 'v) forecast_data \<Rightarrow> js_error + 'v cell list" where
  "forecastValues h f =
     bind_js (Array_fill_null (int (length (h_dates h)) - 1))
       (\<lambda>pad. Inr (pad @ [index_cell (h_values h) (int (length (h_values h)) - 1)]
                     @ map Val (f_values f)))"

definition bandValues :: "('d, 'v) hist_data \<Rightarrow> 'v list \<Rightarrow> js_error + 'v cell list" where
  "bandValues h sigma =
     bind_js (Array_fill_null (int (length (h_dates h)))) (\<lambda>pad. Inr (pad @ map Val sigma))"

text \<open>
  \<open>renderForecastChart\<close>, from "Combine dates and values" to \<open>new Chart\<close>: six
  datasets, in the source's order.
\<close>

definition forecastChart ::
  "('d, 'v) hist_data \<Rightarrow> ('d, 'v) forecast_data \<Rightarrow> js_error + ('d, 'v) chart" where
  "forecastChart h f =
     bind_js (historicalValues h f) (\<lambda>hv.
     bind_js (forecastValues h f) (\<lambda>fv.
     bind_js (bandValues h (sigma_2_up f)) (\<lambda>b2u.
     bind_js (bandValues h (sigma_1_up f)) (\<lambda>b1u.
     bind_js (bandValues h (sigma_1_down f)) (\<lambda>b1d.
     bind_js (bandValues h (sigma_2_down f)) (\<lambda>b2d.
       Inr \<lparr> labels = allDates h f,
             datasets =
               [\<lparr> label = Historical, data = hv, fill = NoFillOption \<rparr>,
                \<lparr> label = Forecast, data = fv, fill = NoFillOption \<rparr>,
                \<lparr> label = Plus2Sigma, data = b2u, fill = FillFalse \<rparr>,
                \<lparr> label = Plus1Sigma, data = b1u, fill = FillRelative 1 \<rparr>,
                \<lparr> label = Minus1Sigma, data = b1d, fill = FillRelative (- 1) \<rparr>,
                \<lparr> label = Minus2Sigma, data = b2d, fill = FillFalse \<rparr>],
             destroyed = False \<rparr>))))))"

text \<open>
  \<open>renderTileForecastChart\<close>, from \<open>allDates\<close> to \<open>new Chart\<close>: four datasets.
\<close>

definition tileChart ::
  "('d, 'v) hist_data \<Rightarrow> ('d, 'v) forecast_data \<Rightarrow> js_error + ('d, 'v) chart" where
  "tileChart h f =
     bind_js (historicalValues h f) (\<lambda>hv.
     bind_js (forecastValues h f) (\<lambda>fv.
     bind_js (bandValues h (sigma_1_up f)) (\<lambda>b1u.
     bind_js (bandValues h (sigma_1_down f)) (\<lambda>b1d.
       Inr \<lparr> labels = allDates h f,
             datasets =
               [\<lparr> label = Historical, data = hv, fill = NoFillOption \<rparr>,
                \<lparr> label = Forecast, data = fv, fill = NoFillOption \<rparr>,
                \<lparr> label = Plus1Sigma, data = b1u, fill = FillRelative 1 \<rparr>,
                \<lparr> label = Minus1Sigma, data = b1d, fill = FillFalse \<rparr>],
             destroyed = False \<rparr>))))"

section \<open>Tiles\<close>

text \<open>
  Of an expandable tile's content element the model keeps what the forecast chart code
  reads and writes: the first \<open>.tile-chart-container\<close> (absent, or holding the loading
  spinner, a placeholder message, or the \<open>canvas.forecast-chart\<close>) and the handler
  bound to the tile's period buttons. A canvas carries \<open>_fullData\<close> and the live chart
  that \<open>Chart.getChart(canvas)\<close> finds (none after \<open>destroy()\<close>). The statistics,
  quality, correlation and difference-chart parts of a tile are not represented.
\<close>

record ('d, 'v, 'c) tile_canvas =
  fullData :: "('d, 'v, 'c) analysis_data option"
  chart :: "('d, 'v) chart option"

datatype ('d, 'v, 'c) chart_container =
  LoadingSpinner | PlaceholderText string | CanvasIn "('d, 'v, 'c) tile_canvas"

datatype ('d, 'v, 'c) period_handler =
  FromCanvas | FromAnalysis "('d, 'v, 'c) analysis_data"

record ('d, 'v, 'c) tile_content =
  chartContainer :: "('d, 'v, 'c) chart_container option"
  periodHandler :: "('d, 'v, 'c) period_handler option"

text \<open>\<open>content.querySelector('.forecast-chart')\<close>.\<close>

definition forecastCanvas :: "('d, 'v, 'c) tile_content \<Rightarrow> ('d, 'v, 'c) tile_canvas option" where
  "forecastCanvas content =
     (case chartContainer content of Some (CanvasIn cv) \<Rightarrow> Some cv | _ \<Rightarrow> None)"

text \<open>The canvas element that \<open>innerHTML = '<canvas class="forecast-chart">'\<close> creates.\<close>

definition newCanvas :: "('d, 'v, 'c) tile_canvas" where
  "newCanvas = \<lparr> fullData = None, chart = None \<rparr>"

text \<open>
  \<open>renderTileForecastChart(content, data, periodValue)\<close>. It returns the exception
  thrown, if any, with the tile as the call leaves it: \<open>_fullData\<close> is stored and the
  existing chart destroyed before the arrays are built.
\<close>

definition renderTileForecastChart ::
  "('d, 'v, 'c) tile_content \<Rightarrow> ('d, 'v, 'c) analysis_data \<Rightarrow> int \<Rightarrow>
     js_error option \<times> ('d, 'v, 'c) tile_content" where
  "renderTileForecastChart content d periodValue =
     (case forecastCanvas content of
        None \<Rightarrow> (None, content)
      | Some canvas \<Rightarrow>
          (let stored = canvas\<lparr> fullData := Some d \<rparr>;
               (h, f) = tileWindow d periodValue;
               cleared = stored\<lparr> chart := None \<rparr>
           in case tileChart h f of
                Inl e \<Rightarrow> (Some e, content\<lparr> chartContainer := Some (CanvasIn cleared) \<rparr>)
              | Inr c \<Rightarrow>
                  (None, content\<lparr> chartContainer :=
                                    Some (CanvasIn (cleared\<lparr> chart := Some c \<rparr>)) \<rparr>)))"


section \<open>The main panel\<close>

text \<open>
  The global \<open>state\<close>, as far as the forecast chart uses it: \<open>state.analysisResults\<close>,
  \<open>state.fullChartData\<close> and \<open>state.charts.forecast\<close>.
\<close>

record ('d, 'v, 'c) app_state =
  analysisResults :: "('d, 'v, 'c) analysis_data option"
  fullChartData :: "(('d, 'v) hist_data \<times> ('d, 'v) forecast_data) option"
  charts_forecast :: "('d, 'v) chart option"

text \<open>
  \<open>renderForecastChart(data)\<close>: the old chart is destroyed and the full data stored
  before the arrays are built, so both happen even when building them throws.
\<close>

definition renderForecastChart ::
  "('d, 'v, 'c) analysis_data \<Rightarrow> ('d, 'v, 'c) app_state \<Rightarrow>
     js_error option \<times> ('d, 'v, 'c) app_state" where
  "renderForecastChart d st =
     (let st1 = st\<lparr> charts_forecast :=
                      map_option (\<lambda>c. c\<lparr> destroyed := True \<rparr>) (charts_forecast st) \<rparr>;
          st2 = st1\<lparr> fullChartData := Some (historical d, forecast d) \<rparr>
      in case forecastChart (historical d) (forecast d) of
           Inl e \<Rightarrow> (Some e, st2)
         | Inr c \<Rightarrow> (None, st2\<lparr> charts_forecast := Some c \<rparr>))"

text \<open>
  \<open>chartToUpdate.data.datasets[i].data = ...\<close> for \<open>i = 0, 1, ...\<close> in turn: the first
  index past the chart's datasets throws a \<open>TypeError\<close>, the earlier assignments done.
\<close>

fun assign_data ::
  "'v dataset list \<Rightarrow> 'v cell list list \<Rightarrow> js_error option \<times> 'v dataset list" where
  "assign_data dss [] = (None, dss)"
| "assign_data [] (x # xs) = (Some TypeError, [])"
| "assign_data (ds # dss) (x # xs) =
     (case assign_data dss xs of (e, dss') \<Rightarrow> (e, ds\<lparr> data := x \<rparr> # dss'))"

text \<open>
  The update of \<open>chartToUpdate\<close> in \<open>handlePeriodChange\<close>: the labels, then the data
  of datasets 0 to 5 (historical, forecast, +2, +1, -1, -2 sigma).
\<close>

definition updateChart ::
  "('d, 'v) hist_data \<Rightarrow> ('d, 'v) forecast_data \<Rightarrow> 'v cell list \<Rightarrow> 'v cell list \<Rightarrow>
     ('d, 'v) chart \<Rightarrow> js_error option \<times> ('d, 'v) chart" where
  "updateChart sh f hv fv c =
     (case bind_js (bandValues sh (sigma_2_up f)) (\<lambda>b2u.
           bind_js (bandValues sh (sigma_1_up f)) (\<lambda>b1u.
           bind_js (bandValues sh (sigma_1_down f)) (\<lambda>b1d.
           bind_js (bandValues sh (sigma_2_down f)) (\<lambda>b2d.
             Inr [hv, fv, b2u, b1u, b1d, b2d])))) of
        Inl e \<Rightarrow> (Some e, c\<lparr> labels := allDates sh f \<rparr>)
      | Inr xs \<Rightarrow>
          (case assign_data (datasets c) xs of
             (e, dss) \<Rightarrow> (e, c\<lparr> labels := allDates sh f, datasets := dss \<rparr>)))"

text \<open>
  \<open>handlePeriodChange(btn)\<close> for a button with period \<open>periodValue\<close>;
  \<open>tileContent\<close> is \<open>btn.closest('.tile-content')\<close>. The chart updated is the main
  panel's, or the tile's live chart when the button is inside a tile.
\<close>

definition handlePeriodChange ::
  "int \<Rightarrow> ('d, 'v, 'c) tile_content option \<Rightarrow> ('d, 'v, 'c) app_state \<Rightarrow>
     js_error option \<times> ('d, 'v, 'c) app_state \<times> ('d, 'v, 'c) tile_content option" where
  "handlePeriodChange periodValue tileContent st =
     (case (analysisResults st, fullChartData st) of
        (Some _, Some (h, f)) \<Rightarrow>
          (let sh = slicedHist periodValue h in
           case bind_js (historicalValues sh f) (\<lambda>hv.
                bind_js (forecastValues sh f) (\<lambda>fv. Inr (hv, fv))) of
             Inl e \<Rightarrow> (Some e, st, tileContent)
           | Inr (hv, fv) \<Rightarrow>
               (case tileContent of
                  None \<Rightarrow>
                    (case charts_forecast st of
                       None \<Rightarrow> (None, st, tileContent)
                     | Some c \<Rightarrow>
                         (case updateChart sh f hv fv c of
                            (e, c') \<Rightarrow> (e, st\<lparr> charts_forecast := Some c' \<rparr>, tileContent)))
                | Some content \<Rightarrow>
                    (case forecastCanvas content of
                       None \<Rightarrow> (None, st, tileContent)
                     | Some canvas \<Rightarrow>
                         (case chart canvas of
                            None \<Rightarrow> (None, st, tileContent)
                          | Some c \<Rightarrow>
                              (case updateChart sh f hv fv c of
                                 (e, c') \<Rightarrow>
                                   (e, st,
                                    Some (content\<lparr> chartContainer :=
                                      Some (CanvasIn (canvas\<lparr> chart := Some c' \<rparr>)) \<rparr>)))))))
      | _ \<Rightarrow> (None, st, tileContent))"

text \<open>
  The state a click on a main-panel period button leaves (\<open>btn.closest('.tile-content')\<close>
  is \<open>null\<close> there); an exception ends the handler and the state stays as it was left.
\<close>

definition mainStep :: "int \<Rightarrow> ('d, 'v, 'c) app_state \<Rightarrow> ('d, 'v, 'c) app_state" where
  "mainStep p st = fst (snd (handlePeriodChange p None st))"

section \<open>Loading a tile\<close>

text \<open>
  \<open>loadPrecomputedModel(content, indicator)\<close>, as a function of how
  \<^verbatim>\<open>fetch('/api/precomputed/' + series_id)\<close> and \<open>response.json()\<close> end: they throw
  (network failure, unreadable body), or give the object \<open>data\<close> with its \<open>error\<close> and
  \<open>result\<close> fields (each possibly absent). Everything after the first \<open>await\<close> runs
  inside the function's \<open>try\<close>; its \<open>catch\<close> puts an empty canvas into the chart
  container, whatever was rendered before.

  After the chart is rendered and the period buttons are bound, the function renders the
  difference chart, the statistics and the quality text of the result. These steps write
  to parts of the tile that are not represented, but they can throw (\<open>toFixed\<close> or
  \<open>replace\<close> on a value of the wrong type, Chart.js), and then the \<open>catch\<close> runs too.
  \<open>laterSteps result\<close> says whether they throw for a result.
\<close>

record ('d, 'v, 'c) precomputed_data =
  resp_error :: "string option"
  resp_result :: "('d, 'v, 'c) analysis_data option"

datatype ('d, 'v, 'c) fetch_outcome =
  FetchFailed | Response "('d, 'v, 'c) precomputed_data"

text \<open>A string field is truthy when it is present and not empty.\<close>

definition truthy :: "string option \<Rightarrow> bool" where
  "truthy s = (case s of None \<Rightarrow> False | Some t \<Rightarrow> t \<noteq> [])"

definition loadPrecomputedModel ::
  "(('d, 'v, 'c) analysis_data \<Rightarrow> js_error option) \<Rightarrow> ('d, 'v, 'c) fetch_outcome \<Rightarrow>
     ('d, 'v, 'c) tile_content \<Rightarrow> ('d, 'v, 'c) app_state \<Rightarrow>
     ('d, 'v, 'c) app_state \<times> ('d, 'v, 'c) tile_content" where
  "loadPrecomputedModel laterSteps outcome content st =
     (case chartContainer content of
        None \<Rightarrow> (st, content)
      | Some _ \<Rightarrow>
          (let blank = content\<lparr> chartContainer := Some (CanvasIn newCanvas) \<rparr> in
           case outcome of
             FetchFailed \<Rightarrow> (st, blank)
           | Response r \<Rightarrow>
               if truthy (resp_error r) then
                 (st, content\<lparr> chartContainer :=
                        Some (PlaceholderText (''Model not ready: '' @ the (resp_error r))) \<rparr>)
               else
                 (case resp_result r of
                    None \<Rightarrow> (st, blank)
                  | Some res \<Rightarrow>
                      (let st' = st\<lparr> analysisResults := Some res,
                                       fullChartData := Some (historical res, forecast res) \<rparr>
                       in case renderTileForecastChart blank res 12 of
                            (Some e, _) \<Rightarrow> (st', blank)
                          | (None, content') \<Rightarrow>
                              (let bound = content'\<lparr> periodHandler := Some FromCanvas \<rparr>
                               in case laterSteps res of
                                    None \<Rightarrow> (st', bound)
                                  | Some e \<Rightarrow>
                                      (st', bound\<lparr> chartContainer :=
                                                     Some (CanvasIn newCanvas) \<rparr>))))))"

text \<open>
  \<open>runTileAnalysis\<close> once the response \<open>analysisData\<close> is there: the chart is rendered
  with 12 observations and the period buttons are re-bound to the new data; an exception
  goes to the function's \<open>catch\<close>, the buttons left as they were.
\<close>

definition tileAnalysisLoaded ::
  "('d, 'v, 'c) tile_content \<Rightarrow> ('d, 'v, 'c) analysis_data \<Rightarrow>
     js_error option \<times> ('d, 'v, 'c) tile_content" where
  "tileAnalysisLoaded content analysisData =
     (case renderTileForecastChart content analysisData 12 of
        (Some e, content') \<Rightarrow> (Some e, content')
      | (None, content') \<Rightarrow>
          (None, content'\<lparr> periodHandler := Some (FromAnalysis analysisData) \<rparr>))"

section \<open>Rendering the calendar\<close>

text \<open>
  The calendar comes from \<^verbatim>\<open>/api/calendar\<close> as JSON, and the client does not check
  its types. A field of an indicator is absent or any JSON value; the code tells these
  apart only by truthiness and by whether the value is a string (arrays and objects are
  one case, a number is an integer here since only being zero matters).
\<close>

datatype js_val = Absent | JNull | JBool bool | JNumber int | JString string | JComposite

definition truthy_val :: "js_val \<Rightarrow> bool" where
  "truthy_val v =
     (case v of
        Absent \<Rightarrow> False
      | JNull \<Rightarrow> False
      | JBool b \<Rightarrow> b
      | JNumber n \<Rightarrow> n \<noteq> 0
      | JString s \<Rightarrow> s \<noteq> []
      | JComposite \<Rightarrow> True)"

text \<open>
  \<open>renderCalendar(calendar)\<close>: the calendar is an object from date keys to arrays of
  indicators. An array element is an indicator object, of which the model keeps
  \<open>series_id\<close> and \<open>type\<close>, or a falsy value such as \<open>null\<close> (\<open>None\<close>); a value
  under a date key that cannot be iterated (\<open>null\<close>, a number, a plain object) is
  \<open>None\<close> too. What ends up in \<open>#calendarList\<close> is a list of date headers and tiles
  (or the message \<open>loadCalendar\<close> puts there); a tile is known by its id, its data type
  and the indicator its listeners close over.
\<close>

record indicator =
  series_id :: js_val
  ind_type :: js_val

record tile =
  tile_id :: string
  dataType :: js_val
  tile_indicator :: indicator

datatype element = DateHeader string | Tile tile | PlaceholderMessage string

text \<open>\<^verbatim>\<open>series_id.replace(/[^a-zA-Z0-9]/g, '_')\<close>, on ASCII identifiers.\<close>

definition isAlnum :: "char \<Rightarrow> bool" where
  "isAlnum c =
     (let n = (of_char c :: nat)
      in (48 \<le> n \<and> n \<le> 57) \<or> (65 \<le> n \<and> n \<le> 90) \<or> (97 \<le> n \<and> n \<le> 122))"

definition tileId :: "string \<Rightarrow> string" where
  "tileId sid = ''tile-'' @ map (\<lambda>c. if isAlnum c then c else CHR ''_'') sid"

text \<open>
  The loop body from \<^verbatim>\<open>const dataType = indicator.type || 'fred'\<close> up to the \<open>try\<close>:
  it builds the tile's elements and markup. \<open>indicator.series_id.replace\<close> is a
  \<open>TypeError\<close> unless \<open>series_id\<close> is a string; nothing here is inside a \<open>try\<close>.
\<close>

definition makeTile :: "indicator \<Rightarrow> js_error + tile" where
  "makeTile ind =
     (case series_id ind of
        JString sid \<Rightarrow>
          Inr \<lparr> tile_id = tileId sid,
                dataType = (if truthy_val (ind_type ind) then ind_type ind else JString ''fred''),
                tile_indicator = ind \<rparr>
      | _ \<Rightarrow> Inl TypeError)"

text \<open>
  The inner loop over one date's indicators, from the list as it stands. The guard skips
  a falsy indicator and a falsy \<open>series_id\<close>. \<open>throws list t\<close> says whether the DOM
  calls inside the loop's \<open>try\<close> block (\<open>appendChild\<close>, \<open>addEventListener\<close>) throw
  for tile \<open>t\<close> when the list holds \<open>list\<close>; the \<open>catch\<close> logs and the loop goes on.
  An exception from building the tile ends the loop; the result is the exception, if
  any, and the list as it then stands.
\<close>

fun renderIndicators ::
  "(element list \<Rightarrow> tile \<Rightarrow> bool) \<Rightarrow> element list \<Rightarrow> indicator option list \<Rightarrow>
     js_error option \<times> element list" where
  "renderIndicators throws list [] = (None, list)"
| "renderIndicators throws list (None # rest) = renderIndicators throws list rest"
| "renderIndicators throws list (Some ind # rest) =
     (if \<not> truthy_val (series_id ind) then renderIndicators throws list rest
      else case makeTile ind of
             Inl e \<Rightarrow> (Some e, list)
           | Inr t \<Rightarrow>
               if throws list t then renderIndicators throws list rest
               else renderIndicators throws (list @ [Tile t]) rest)"

text \<open>The outer loop: the date header, then \<open>for (const indicator of indicators)\<close>.\<close>

fun renderEntries ::
  "(element list \<Rightarrow> tile \<Rightarrow> bool) \<Rightarrow> element list \<Rightarrow>
     (string \<times> indicator option list option) list \<Rightarrow> js_error option \<times> element list" where
  "renderEntries throws list [] = (None, list)"
| "renderEntries throws list ((dateKey, indicators) # rest) =
     (case indicators of
        None \<Rightarrow> (Some TypeError, list @ [DateHeader dateKey])
      | Some inds \<Rightarrow>
          (case renderIndicators throws (list @ [DateHeader dateKey]) inds of
             (Some e, list') \<Rightarrow> (Some e, list')
           | (None, list') \<Rightarrow> renderEntries throws list' rest))"

definition renderCalendar ::
  "(element list \<Rightarrow> tile \<Rightarrow> bool) \<Rightarrow> (string \<times> indicator option list option) list \<Rightarrow>
     js_error option \<times> element list" where
  "renderCalendar throws calendar = renderEntries throws [] calendar"

text \<open>
  \<open>loadCalendar()\<close>, given what the fetch returned (\<open>None\<close>: it threw): the list is
  what \<open>renderCalendar\<close> built, or, when anything in the \<open>try\<close> threw, only the
  message the \<open>catch\<close> writes over it.
\<close>

definition loadCalendar ::
  "(element list \<Rightarrow> tile \<Rightarrow> bool) \<Rightarrow> (string \<times> indicator option list option) list option \<Rightarrow>
     element list" where
  "loadCalendar throws fetched =
     (case fetched of
        None \<Rightarrow> [PlaceholderMessage ''Error loading calendar data.'']
      | Some calendar \<Rightarrow>
          (case renderCalendar throws calendar of
             (Some e, _) \<Rightarrow> [PlaceholderMessage ''Error loading calendar data.'']
           | (None, list) \<Rightarrow> list))"

section \<open>Analyze requests\<close>

text \<open>
  The body of \<^verbatim>\<open>POST /api/analyze\<close>: \<open>series_id\<close>, \<open>model_type\<close> and the spread
  parameter object. A form input read with \<open>parseInt\<close> is a number or \<open>NaN\<close>; the model
  starts from the parsed values. A field of the body is present or not.
\<close>

datatype js_num = NaN | Num int

record model_params =
  order :: "js_num list option"
  windows :: "js_num list option"
  simulations :: "js_num option"
  n_test :: "js_num option"
  h_future :: "js_num option"

record analyze_request = model_params +
  sent_series_id :: string
  model_type :: string

text \<open>The main panel's inputs (\<open>maWindows\<close> split at commas, each piece parsed).\<close>

record analysis_form =
  nTest :: js_num
  hFuture :: js_num
  paramP :: js_num
  paramD :: js_num
  paramQ :: js_num
  maWindows :: "js_num list"
  mcSims :: js_num

text \<open>\<open>getModelParams(modelType)\<close>: \<open>undefined\<close> when no \<open>case\<close> matches.\<close>

definition getModelParams :: "string \<Rightarrow> analysis_form \<Rightarrow> model_params option" where
  "getModelParams modelType form =
     (if modelType = ''ARIMA'' then
        Some \<lparr> order = Some [paramP form, paramD form, paramQ form],
               windows = None, simulations = None,
               n_test = Some (nTest form), h_future = Some (hFuture form) \<rparr>
      else if modelType = ''MovingAverage'' then
        Some \<lparr> order = None, windows = Some (maWindows form), simulations = None,
               n_test = Some (nTest form), h_future = Some (hFuture form) \<rparr>
      else if modelType = ''MonteCarlo'' then
        Some \<lparr> order = None, windows = None, simulations = Some (mcSims form),
               n_test = Some (nTest form), h_future = Some (hFuture form) \<rparr>
      else None)"

text \<open>The request \<open>runAnalysis\<close> sends; spreading \<open>undefined\<close> adds no field.\<close>

definition runAnalysis_request :: "string \<Rightarrow> string \<Rightarrow> analysis_form \<Rightarrow> analyze_request" where
  "runAnalysis_request sid modelType form =
     (case getModelParams modelType form of
        None \<Rightarrow>
          \<lparr> order = None, windows = None, simulations = None, n_test = None, h_future = None,
            sent_series_id = sid, model_type = modelType \<rparr>
      | Some ps \<Rightarrow>
          \<lparr> order = order ps, windows = windows ps, simulations = simulations ps,
            n_test = n_test ps, h_future = h_future ps,
            sent_series_id = sid, model_type = modelType \<rparr>)"

text \<open>A tile's config bar; \<open>parseInt(x) || dflt\<close> replaces \<open>NaN\<close> and \<open>0\<close>.\<close>

record tile_form =
  model_type_select :: string
  order_p :: js_num
  order_d :: js_num
  order_q :: js_num
  n_test_input :: js_num
  h_future_input :: js_num

definition orDefault :: "js_num \<Rightarrow> int \<Rightarrow> int" where
  "orDefault x dflt = (case x of NaN \<Rightarrow> dflt | Num n \<Rightarrow> if n = 0 then dflt else n)"

text \<open>The request \<open>runTileAnalysis\<close> sends.\<close>

definition runTileAnalysis_request :: "string \<Rightarrow> tile_form \<Rightarrow> analyze_request" where
  "runTileAnalysis_request sid form =
     (let modelType = model_type_select form;
          orderP = orDefault (order_p form) 1;
          orderD = orDefault (order_d form) 1;
          orderQ = orDefault (order_q form) 1;
          nTest' = orDefault (n_test_input form) 12;
          hFuture' = orDefault (h_future_input form) 6
      in \<lparr> order = (if modelType = ''ARIMA''
                      then Some [Num orderP, Num orderD, Num orderQ] else None),
            windows = None, simulations = None,
            n_test = Some (Num nTest'), h_future = Some (Num hFuture'),
            sent_series_id = sid, model_type = modelType \<rparr>)"

section \<open>Sample data\<close>

text \<open>
  A result with three observations and a two-period forecast (dates as period numbers),
  a tile showing it and a main-panel state holding it; the theorems below are
  instantiated with them.
\<close>

definition example_result :: "(nat, int, unit) analysis_data" where
  "example_result =
     \<lparr> historical = \<lparr> h_dates = [1, 2, 3], h_values = [10, 20, 30] \<rparr>,
       forecast = \<lparr> f_dates = [4, 5], f_values = [40, 50],
                    sigma_1_up = [41, 51], sigma_1_down = [39, 49],
                    sigma_2_up = [42, 52], sigma_2_down = [38, 48] \<rparr>,
       comparison = None \<rparr>"

definition example_tile :: "(nat, int, unit) tile_content" where
  "example_tile =
     \<lparr> chartContainer = Some (CanvasIn \<lparr> fullData = Some example_result, chart = None \<rparr>),
       periodHandler = Some FromCanvas \<rparr>"

definition example_state :: "(nat, int, unit) app_state" where
  "example_state =
     \<lparr> analysisResults = Some example_result,
       fullChartData = Some (historical example_result, forecast example_result),
       charts_forecast = None \<rparr>"

text \<open>
  A calendar with one date whose entries include a \<open>null\<close>, an indicator without
  \<open>series_id\<close> and one whose tile cannot be appended (\<open>example_throws\<close>); and a
  calendar whose first indicator has a number for \<open>series_id\<close>.
\<close>

definition example_calendar :: "(string \<times> indicator option list option) list" where
  "example_calendar =
     [(''2024-01-05'',
       Some [Some \<lparr> series_id = JString ''GDP'', ind_type = Absent \<rparr>,
             None,
             Some \<lparr> series_id = Absent, ind_type = JString ''economic'' \<rparr>,
             Some \<lparr> series_id = JString ''BAD ID'', ind_type = JString ''stock'' \<rparr>,
             Some \<lparr> series_id = JString ''CPI-U'', ind_type = JString ''fred'' \<rparr>])]"

definition example_throws :: "element list \<Rightarrow> tile \<Rightarrow> bool" where
  "example_throws list t = (tile_id t = ''tile-BAD_ID'')"

definition numeric_id_calendar :: "(string \<times> indicator option list option) list" where
  "numeric_id_calendar =
     [(''2024-01-05'',
       Some [Some \<lparr> series_id = JNumber 123, ind_type = Absent \<rparr>,
             Some \<lparr> series_id = JString ''GDP'', ind_type = Absent \<rparr>]),
      (''2024-01-12'',
       Some [Some \<lparr> series_id = JString ''CPI-U'', ind_type = JString ''fred'' \<rparr>])]"

definition no_throws :: "element list \<Rightarrow> tile \<Rightarrow> bool" where
  "no_throws list t = False"

section \<open>Windowing lemmas\<close>

lemma slice_from_in_range:
  "0 \<le> k \<Longrightarrow> k \<le> int (length xs) \<Longrightarrow> slice_from k xs = drop (nat k) xs"
  by (simp add: slice_from_def Let_def min_def)

lemma slice_from_zero: "slice_from 0 xs = xs"
  by (simp add: slice_from_def)

lemma histStart_nonneg: "0 \<le> histStart p ds"
  by (simp add: histStart_def)

lemma histStart_le: "0 \<le> p \<Longrightarrow> histStart p ds \<le> int (length ds)"
  by (simp add: histStart_def)

lemma length_slice_histStart:
  assumes "0 < p"
  shows "length (slice_from (histStart p ds) ds) = min (nat p) (length ds)"
proof -
  have b: "0 \<le> histStart p ds" "histStart p ds \<le> int (length ds)"
    using assms by (simp_all add: histStart_def)
  have "length (slice_from (histStart p ds) ds) = length ds - nat (histStart p ds)"
    using b by (simp add: slice_from_in_range)
  also have "\<dots> = min (nat p) (length ds)"
    using assms by (simp add: histStart_def max_def min_def) linarith
  finally show ?thesis .
qed

lemma slice_from_nonneg: "0 \<le> k \<Longrightarrow> slice_from k xs = drop (nat k) xs"
  by (auto simp: slice_from_def Let_def min_def)

lemma tileHistorical_pos:
  "0 < p \<Longrightarrow> tileHistorical p h =
     \<lparr> h_dates = drop (nat (histStart p (h_dates h))) (h_dates h),
       h_values = drop (nat (histStart p (h_dates h))) (h_values h) \<rparr>"
  by (simp add: tileHistorical_def Let_def slice_from_nonneg histStart_nonneg)

lemma slicedHist_pos: "0 < p \<Longrightarrow> slicedHist p h = tileHistorical p h"
  by (simp add: slicedHist_def tileHistorical_def)

lemma slicedHist_nonpos: "\<not> 0 < p \<Longrightarrow> slicedHist p h = h"
  by (simp add: slicedHist_def slice_from_zero)

lemma length_dates_tileHistorical:
  "0 < p \<Longrightarrow> length (h_dates (tileHistorical p h)) = min (nat p) (length (h_dates h))"
  using length_slice_histStart [of p "h_dates h"]
  by (simp add: tileHistorical_def Let_def)

lemma length_values_tileHistorical:
  assumes "0 < p" "aligned_hist h"
  shows "length (h_values (tileHistorical p h)) = min (nat p) (length (h_dates h))"
proof -
  have "length (h_values (tileHistorical p h)) = length (h_values h) - nat (histStart p (h_dates h))"
    using assms(1) by (simp add: tileHistorical_pos)
  also have "\<dots> = length (h_dates h) - nat (histStart p (h_dates h))"
    using assms(2) by (simp add: aligned_hist_def)
  also have "\<dots> = length (h_dates (tileHistorical p h))"
    using assms(1) by (simp add: tileHistorical_pos)
  finally show ?thesis using assms(1) by (simp add: length_dates_tileHistorical)
qed

lemma tileHistorical_whole:
  assumes "int (length (h_dates h)) \<le> p"
  shows "tileHistorical p h = h"
proof (cases "0 < p")
  case True
  have "histStart p (h_dates h) = 0" using assms by (simp add: histStart_def)
  then show ?thesis using True by (simp add: tileHistorical_pos)
next
  case False
  then show ?thesis by (simp add: tileHistorical_def)
qed

lemma tileHistorical_idem:
  assumes "0 < c" "c \<le> c'"
  shows "tileHistorical c' (tileHistorical c h) = tileHistorical c h"
proof -
  have "length (h_dates (tileHistorical c h)) \<le> nat c"
    using assms(1) by (simp add: length_dates_tileHistorical)
  then have "int (length (h_dates (tileHistorical c h))) \<le> c'"
    using assms by linarith
  then show ?thesis by (rule tileHistorical_whole)
qed

section \<open>Composition lemmas\<close>

lemma Array_fill_null_length [simp]: "Array_fill_null (int n) = Inr (replicate n Null)"
  by (simp add: Array_fill_null_def)

lemma bind_js_Inr [simp]: "bind_js (Inr x) k = k x"
  by (simp add: bind_js_def)

lemma bind_js_Inl [simp]: "bind_js (Inl e) k = Inl e"
  by (simp add: bind_js_def)

lemma historicalValues_eq:
  "historicalValues h f = Inr (map Val (h_values h) @ replicate (length (f_dates f)) Null)"
  by (simp add: historicalValues_def)

lemma bandValues_eq:
  "bandValues h sigma = Inr (replicate (length (h_dates h)) Null @ map Val sigma)"
  by (simp add: bandValues_def)

lemma forecastValues_empty: "h_dates h = [] \<Longrightarrow> forecastValues h f = Inl RangeError"
  by (simp add: forecastValues_def Array_fill_null_def)

lemma forecastValues_nonempty:
  assumes "h_dates h \<noteq> []"
  shows "forecastValues h f =
           Inr (replicate (length (h_dates h) - 1) Null
                @ [index_cell (h_values h) (int (length (h_values h)) - 1)]
                @ map Val (f_values f))"
proof -
  obtain n where n: "length (h_dates h) = Suc n"
    using assms by (cases "h_dates h") simp_all
  have "Array_fill_null (int (length (h_dates h)) - 1) = (Inr (replicate n Null) :: js_error + 'b cell list)"
    by (simp add: n Array_fill_null_def)
  then show ?thesis by (simp add: forecastValues_def n)
qed

lemma index_cell_last: "xs \<noteq> [] \<Longrightarrow> index_cell xs (int (length xs) - 1) = Val (last xs)"
proof (cases xs rule: rev_cases)
  case Nil
  assume "xs \<noteq> []"
  with Nil show ?thesis by simp
next
  case (snoc ys y)
  then show ?thesis by (simp add: index_cell_def)
qed

lemma index_cell_empty: "index_cell [] i = Undefined"
  by (simp add: index_cell_def)

lemma forecastChart_empty: "h_dates h = [] \<Longrightarrow> forecastChart h f = Inl RangeError"
  by (simp add: forecastChart_def historicalValues_eq forecastValues_empty)

lemma tileChart_empty: "h_dates h = [] \<Longrightarrow> tileChart h f = Inl RangeError"
  by (simp add: tileChart_def historicalValues_eq forecastValues_empty)

lemma forecastChart_nonempty:
  assumes "h_dates h \<noteq> []"
  shows "forecastChart h f =
     Inr \<lparr> labels = h_dates h @ f_dates f,
           datasets =
             [\<lparr> label = Historical,
                data = map Val (h_values h) @ replicate (length (f_dates f)) Null,
                fill = NoFillOption \<rparr>,
              \<lparr> label = Forecast,
                data = replicate (length (h_dates h) - 1) Null
                       @ [index_cell (h_values h) (int (length (h_values h)) - 1)]
                       @ map Val (f_values f),
                fill = NoFillOption \<rparr>,
              \<lparr> label = Plus2Sigma,
                data = replicate (length (h_dates h)) Null @ map Val (sigma_2_up f),
                fill = FillFalse \<rparr>,
              \<lparr> label = Plus1Sigma,
                data = replicate (length (h_dates h)) Null @ map Val (sigma_1_up f),
                fill = FillRelative 1 \<rparr>,
              \<lparr> label = Minus1Sigma,
                data = replicate (length (h_dates h)) Null @ map Val (sigma_1_down f),
                fill = FillRelative (- 1) \<rparr>,
              \<lparr> label = Minus2Sigma,
                data = replicate (length (h_dates h)) Null @ map Val (sigma_2_down f),
                fill = FillFalse \<rparr>],
           destroyed = False \<rparr>"
  by (simp add: forecastChart_def historicalValues_eq forecastValues_nonempty [OF assms]
      bandValues_eq allDates_def)

lemma tileChart_nonempty:
  assumes "h_dates h \<noteq> []"
  shows "tileChart h f =
     Inr \<lparr> labels = h_dates h @ f_dates f,
           datasets =
             [\<lparr> label = Historical,
                data = map Val (h_values h) @ replicate (length (f_dates f)) Null,
                fill = NoFillOption \<rparr>,
              \<lparr> label = Forecast,
                data = replicate (length (h_dates h) - 1) Null
                       @ [index_cell (h_values h) (int (length (h_values h)) - 1)]
                       @ map Val (f_values f),
                fill = NoFillOption \<rparr>,
              \<lparr> label = Plus1Sigma,
                data = replicate (length (h_dates h)) Null @ map Val (sigma_1_up f),
                fill = FillRelative 1 \<rparr>,
              \<lparr> label = Minus1Sigma,
                data = replicate (length (h_dates h)) Null @ map Val (sigma_1_down f),
                fill = FillFalse \<rparr>],
           destroyed = False \<rparr>"
  by (simp add: tileChart_def historicalValues_eq forecastValues_nonempty [OF assms]
      bandValues_eq allDates_def)

lemma aligned_tileHistorical: "aligned_hist h \<Longrightarrow> aligned_hist (tileHistorical p h)"
  by (cases "0 < p")
     (simp_all add: aligned_hist_def tileHistorical_pos, simp add: tileHistorical_def)

lemma forecastChart_lengths:
  assumes "aligned_hist h" "aligned_forecast f" "h_dates h \<noteq> []"
  shows "\<exists>c. forecastChart h f = Inr c \<and> labels c = h_dates h @ f_dates f \<and>
             (\<forall>ds\<in>set (datasets c). length (data ds) = length (labels c))"
proof -
  have "0 < length (h_dates h)" using assms(3) by simp
  then show ?thesis
    using assms(1,2)
    by (simp add: forecastChart_nonempty [OF assms(3)] aligned_hist_def aligned_forecast_def)
qed

lemma tileChart_lengths:
  assumes "aligned_hist h" "aligned_forecast f" "h_dates h \<noteq> []"
  shows "\<exists>c. tileChart h f = Inr c \<and> labels c = h_dates h @ f_dates f \<and>
             (\<forall>ds\<in>set (datasets c). length (data ds) = length (labels c))"
proof -
  have "0 < length (h_dates h)" using assms(3) by simp
  then show ?thesis
    using assms(1,2)
    by (simp add: tileChart_nonempty [OF assms(3)] aligned_hist_def aligned_forecast_def)
qed

section \<open>Tile rendering lemmas\<close>

lemma forecastCanvas_CanvasIn [simp]:
  "forecastCanvas (content\<lparr> chartContainer := Some (CanvasIn cv) \<rparr>) = Some cv"
  by (simp add: forecastCanvas_def)

lemma forecastCanvas_periodHandler [simp]:
  "forecastCanvas (content\<lparr> periodHandler := x \<rparr>) = forecastCanvas content"
  by (simp add: forecastCanvas_def)

lemma renderTile_no_canvas:
  "forecastCanvas content = None \<Longrightarrow> renderTileForecastChart content d p = (None, content)"
  by (simp add: renderTileForecastChart_def)

lemma renderTile_canvas:
  assumes "forecastCanvas content = Some cv"
  shows "renderTileForecastChart content d p =
     (case tileChart (tileHistorical p (historical d)) (forecast d) of
        Inl e \<Rightarrow>
          (Some e, content\<lparr> chartContainer :=
                             Some (CanvasIn \<lparr> fullData = Some d, chart = None \<rparr>) \<rparr>)
      | Inr c \<Rightarrow>
          (None, content\<lparr> chartContainer :=
                           Some (CanvasIn \<lparr> fullData = Some d, chart = Some c \<rparr>) \<rparr>))"
  using assms
  by (cases cv) (simp add: renderTileForecastChart_def tileWindow_def split: sum.splits)

lemma snd_renderTile_canvas:
  assumes "forecastCanvas content = Some cv"
  shows "snd (renderTileForecastChart content d p) =
     content\<lparr> chartContainer := Some (CanvasIn
       \<lparr> fullData = Some d,
         chart = (case tileChart (tileHistorical p (historical d)) (forecast d) of
                    Inl e \<Rightarrow> None | Inr c \<Rightarrow> Some c) \<rparr>) \<rparr>"
  by (simp add: renderTile_canvas [OF assms] split: sum.splits)


lemma periodHandler_renderTile [simp]:
  "periodHandler (snd (renderTileForecastChart content d p)) = periodHandler content"
  by (cases "forecastCanvas content")
     (auto simp: renderTile_no_canvas snd_renderTile_canvas)



section \<open>Main-panel update lemmas\<close>

lemma length_assign_data: "length (snd (assign_data dss xs)) = length dss"
  by (induction dss xs rule: assign_data.induct) (auto split: prod.splits)


lemma assign_data_six:
  "length dss = 6 \<Longrightarrow>
   assign_data dss [a, b, c, d, e, g] =
     (None, [(dss ! 0)\<lparr> data := a \<rparr>, (dss ! 1)\<lparr> data := b \<rparr>, (dss ! 2)\<lparr> data := c \<rparr>,
             (dss ! 3)\<lparr> data := d \<rparr>, (dss ! 4)\<lparr> data := e \<rparr>, (dss ! 5)\<lparr> data := g \<rparr>])"
  by (auto simp: length_Suc_conv eval_nat_numeral)

lemma updateChart_eq:
  "updateChart sh f hv fv c =
     (fst (assign_data (datasets c)
            [hv, fv,
             replicate (length (h_dates sh)) Null @ map Val (sigma_2_up f),
             replicate (length (h_dates sh)) Null @ map Val (sigma_1_up f),
             replicate (length (h_dates sh)) Null @ map Val (sigma_1_down f),
             replicate (length (h_dates sh)) Null @ map Val (sigma_2_down f)]),
      c\<lparr> labels := h_dates sh @ f_dates f,
         datasets := snd (assign_data (datasets c)
            [hv, fv,
             replicate (length (h_dates sh)) Null @ map Val (sigma_2_up f),
             replicate (length (h_dates sh)) Null @ map Val (sigma_1_up f),
             replicate (length (h_dates sh)) Null @ map Val (sigma_1_down f),
             replicate (length (h_dates sh)) Null @ map Val (sigma_2_down f)]) \<rparr>)"
  by (simp add: updateChart_def bandValues_eq allDates_def split: prod.splits)



lemma handlePeriodChange_keeps:
  "fullChartData (fst (snd (handlePeriodChange p t st))) = fullChartData st \<and>
   analysisResults (fst (snd (handlePeriodChange p t st))) = analysisResults st"
  by (auto simp: handlePeriodChange_def Let_def split: option.splits prod.splits sum.splits)

lemma slicedHist_empty_iff: "h_dates (slicedHist p h) = [] \<longleftrightarrow> h_dates h = []"
proof (cases "0 < p")
  case True
  have "length (h_dates (slicedHist p h)) = min (nat p) (length (h_dates h))"
    using True by (simp add: slicedHist_pos length_dates_tileHistorical)
  moreover have "0 < nat p" using True by simp
  ultimately have "length (h_dates (slicedHist p h)) = 0 \<longleftrightarrow> length (h_dates h) = 0"
    by linarith
  then show ?thesis by simp
next
  case False
  then show ?thesis by (simp add: slicedHist_nonpos)
qed


lemma updateChart_six:
  assumes "length (datasets c0) = 6"
  shows "updateChart sh f hv fv c0 =
     (None,
      c0\<lparr> labels := h_dates sh @ f_dates f,
          datasets :=
            [(datasets c0 ! 0)\<lparr> data := hv \<rparr>,
             (datasets c0 ! 1)\<lparr> data := fv \<rparr>,
             (datasets c0 ! 2)\<lparr> data := replicate (length (h_dates sh)) Null @ map Val (sigma_2_up f) \<rparr>,
             (datasets c0 ! 3)\<lparr> data := replicate (length (h_dates sh)) Null @ map Val (sigma_1_up f) \<rparr>,
             (datasets c0 ! 4)\<lparr> data := replicate (length (h_dates sh)) Null @ map Val (sigma_1_down f) \<rparr>,
             (datasets c0 ! 5)\<lparr> data := replicate (length (h_dates sh)) Null @ map Val (sigma_2_down f) \<rparr>] \<rparr>)"
  by (simp add: updateChart_eq assign_data_six [OF assms])

lemma updateChart_lengths:
  assumes "aligned_hist h" "aligned_forecast f" "h_dates h \<noteq> []" "length (datasets c0) = 6"
  shows "\<exists>hv fv c. historicalValues h f = Inr hv \<and> forecastValues h f = Inr fv \<and>
           updateChart h f hv fv c0 = (None, c) \<and> labels c = h_dates h @ f_dates f \<and>
           (\<forall>ds\<in>set (datasets c). length (data ds) = length (labels c))"
proof -
  have "0 < length (h_dates h)" using assms(3) by simp
  then show ?thesis
    using assms(1,2)
    by (simp add: historicalValues_eq forecastValues_nonempty [OF assms(3)]
        updateChart_six [OF assms(4)] aligned_hist_def aligned_forecast_def)
qed

section \<open>Empty history and requests\<close>

lemma tileHistorical_empty_iff: "h_dates (tileHistorical p h) = [] \<longleftrightarrow> h_dates h = []"
proof (cases "0 < p")
  case True
  then show ?thesis using slicedHist_empty_iff [of p h] by (simp add: slicedHist_pos)
next
  case False
  then show ?thesis by (simp add: tileHistorical_def)
qed

lemma renderForecastChart_empty:
  "h_dates (historical d) = [] \<Longrightarrow> fst (renderForecastChart d st) = Some RangeError"
  by (simp add: renderForecastChart_def Let_def forecastChart_empty)

lemma renderTile_empty:
  assumes "h_dates (historical d) = []" and "forecastCanvas content = Some cv"
  shows "renderTileForecastChart content d p =
           (Some RangeError,
            content\<lparr> chartContainer := Some (CanvasIn \<lparr> fullData = Some d, chart = None \<rparr>) \<rparr>)"
proof -
  have "h_dates (tileHistorical p (historical d)) = []"
    using assms(1) by (simp add: tileHistorical_empty_iff)
  then have "tileChart (tileHistorical p (historical d)) (forecast d) = Inl RangeError"
    by (rule tileChart_empty)
  then show ?thesis by (simp add: renderTile_canvas [OF assms(2)])
qed

lemma handlePeriodChange_empty:
  assumes "analysisResults st = Some a" and "fullChartData st = Some (h, f)" and "h_dates h = []"
  shows "handlePeriodChange p t st = (Some RangeError, st, t)"
proof -
  have "h_dates (slicedHist p h) = []" using assms(3) by (simp add: slicedHist_empty_iff)
  then have "forecastValues (slicedHist p h) f = Inl RangeError" by (rule forecastValues_empty)
  then show ?thesis
    using assms(1,2) by (simp add: handlePeriodChange_def Let_def historicalValues_eq)
qed


lemma getModelParams_cases:
  "getModelParams ''ARIMA'' form =
     Some \<lparr> order = Some [paramP form, paramD form, paramQ form], windows = None,
            simulations = None, n_test = Some (nTest form), h_future = Some (hFuture form) \<rparr>"
  "getModelParams ''MovingAverage'' form =
     Some \<lparr> order = None, windows = Some (maWindows form), simulations = None,
            n_test = Some (nTest form), h_future = Some (hFuture form) \<rparr>"
  "getModelParams ''MonteCarlo'' form =
     Some \<lparr> order = None, windows = None, simulations = Some (mcSims form),
            n_test = Some (nTest form), h_future = Some (hFuture form) \<rparr>"
  by (simp_all add: getModelParams_def)

section \<open>Calendar and tile loading lemmas\<close>

lemma makeTile_string:
  "series_id ind = JString sid \<Longrightarrow> \<exists>t. makeTile ind = Inr t \<and> tile_id t = tileId sid"
  by (simp add: makeTile_def)

lemma makeTile_not_string:
  "(\<forall>sid. series_id ind \<noteq> JString sid) \<Longrightarrow> makeTile ind = Inl TypeError"
  by (cases "series_id ind") (simp_all add: makeTile_def)

lemma renderIndicators_mono: "set list \<subseteq> set (snd (renderIndicators throws list inds))"
proof (induction inds arbitrary: list)
  case Nil
  then show ?case by simp
next
  case (Cons i rest)
  show ?case
  proof (cases i)
    case None
    then show ?thesis using Cons.IH [of list] by simp
  next
    case (Some ind)
    show ?thesis
    proof (cases "makeTile ind")
      case (Inl e)
      then show ?thesis using Some Cons.IH [of list] by simp
    next
      case (Inr t)
      have "set list \<subseteq> set (list @ [Tile t])" by auto
      also have "\<dots> \<subseteq> set (snd (renderIndicators throws (list @ [Tile t]) rest))"
        by (rule Cons.IH)
      finally show ?thesis using Some Inr Cons.IH [of list] by simp
    qed
  qed
qed

lemma renderIndicators_string_ids:
  assumes "\<And>ind. Some ind \<in> set inds \<Longrightarrow> truthy_val (series_id ind) \<Longrightarrow>
             \<exists>sid. series_id ind = JString sid"
  shows "fst (renderIndicators throws list inds) = None"
  using assms
proof (induction inds arbitrary: list)
  case Nil
  then show ?case by simp
next
  case (Cons i rest)
  have rest: "fst (renderIndicators throws l rest) = None" for l
    using Cons.prems by (intro Cons.IH) auto
  show ?case
  proof (cases i)
    case None
    then show ?thesis using rest by simp
  next
    case (Some ind)
    show ?thesis
    proof (cases "truthy_val (series_id ind)")
      case False
      then show ?thesis using Some rest by simp
    next
      case True
      then obtain sid where "series_id ind = JString sid"
        using Cons.prems [of ind] Some by auto
      then obtain t where "makeTile ind = Inr t" using makeTile_string by blast
      then show ?thesis using Some True rest by simp
    qed
  qed
qed

lemma renderIndicators_tile:
  assumes "Some ind \<in> set inds" and "makeTile ind = Inr t" and "truthy_val (series_id ind)"
    and "\<And>l. \<not> throws l t"
    and "fst (renderIndicators throws list inds) = None"
  shows "Tile t \<in> set (snd (renderIndicators throws list inds))"
  using assms(1,5)
proof (induction inds arbitrary: list)
  case Nil
  then show ?case by simp
next
  case (Cons i rest)
  show ?case
  proof (cases "i = Some ind")
    case True
    have "Tile t \<in> set (list @ [Tile t])" by simp
    then have "Tile t \<in> set (snd (renderIndicators throws (list @ [Tile t]) rest))"
      using renderIndicators_mono by blast
    then show ?thesis using True assms(2,3,4) by simp
  next
    case False
    then have mem: "Some ind \<in> set rest" using Cons.prems(1) by simp
    show ?thesis
    proof (cases i)
      case None
      then show ?thesis using Cons.IH [OF mem, of list] Cons.prems(2) by simp
    next
      case (Some j)
      show ?thesis
      proof (cases "makeTile j")
        case (Inl e)
        then show ?thesis
          using Some Cons.IH [OF mem, of list] Cons.prems(2) by (simp split: if_splits)
      next
        case (Inr u)
        then show ?thesis
          using Some Cons.IH [OF mem, of list] Cons.IH [OF mem, of "list @ [Tile u]"]
            Cons.prems(2)
          by (simp split: if_splits)
      qed
    qed
  qed
qed

lemma renderEntries_mono: "set list \<subseteq> set (snd (renderEntries throws list cal))"
proof (induction cal arbitrary: list)
  case Nil
  then show ?case by simp
next
  case (Cons entry rest)
  obtain dateKey indicators where entry: "entry = (dateKey, indicators)" by (cases entry)
  show ?case
  proof (cases indicators)
    case None
    then show ?thesis by (auto simp: entry)
  next
    case (Some inds)
    obtain e l where r: "renderIndicators throws (list @ [DateHeader dateKey]) inds = (e, l)"
      by (cases "renderIndicators throws (list @ [DateHeader dateKey]) inds")
    have "set list \<subseteq> set (list @ [DateHeader dateKey])" by auto
    also have "\<dots> \<subseteq> set l"
      using renderIndicators_mono [of "list @ [DateHeader dateKey]" throws inds] by (simp add: r)
    finally have l: "set list \<subseteq> set l" .
    show ?thesis
    proof (cases e)
      case None
      have "set l \<subseteq> set (snd (renderEntries throws l rest))" by (rule Cons.IH)
      then show ?thesis using l None Some r by (auto simp: entry)
    next
      case (Some err)
      then show ?thesis using l \<open>indicators = Some inds\<close> r by (auto simp: entry)
    qed
  qed
qed

lemma renderEntries_tile:
  assumes "(dateKey, Some inds) \<in> set cal" and "Some ind \<in> set inds"
    and "makeTile ind = Inr t" and "truthy_val (series_id ind)" and "\<And>l. \<not> throws l t"
    and "fst (renderEntries throws list cal) = None"
  shows "Tile t \<in> set (snd (renderEntries throws list cal))"
  using assms(1,6)
proof (induction cal arbitrary: list)
  case Nil
  then show ?case by simp
next
  case (Cons entry rest)
  obtain k indicators where entry: "entry = (k, indicators)" by (cases entry)
  from Cons.prems(2) obtain inds' where some: "indicators = Some inds'"
    by (cases indicators) (simp_all add: entry)
  obtain e l where r: "renderIndicators throws (list @ [DateHeader k]) inds' = (e, l)"
    by (cases "renderIndicators throws (list @ [DateHeader k]) inds'")
  have e: "e = None" and go: "fst (renderEntries throws l rest) = None"
    using Cons.prems(2) by (cases e; simp add: entry some r)+
  have step: "renderEntries throws list (entry # rest) = renderEntries throws l rest"
    by (simp add: entry some r e)
  show ?case
  proof (cases "entry = (dateKey, Some inds)")
    case True
    then have "inds' = inds" and "k = dateKey" using entry some by simp_all
    then have "fst (renderIndicators throws (list @ [DateHeader dateKey]) inds) = None"
      and "snd (renderIndicators throws (list @ [DateHeader dateKey]) inds) = l"
      using r e by simp_all
    then have "Tile t \<in> set l"
      using renderIndicators_tile [of ind inds t throws "list @ [DateHeader dateKey]"]
        assms(2,3,4,5) by simp
    then show ?thesis using renderEntries_mono [of l throws rest] by (auto simp: step)
  next
    case False
    then have "(dateKey, Some inds) \<in> set rest" using Cons.prems(1) by auto
    then show ?thesis using Cons.IH [OF _ go] by (simp add: step)
  qed
qed

lemma load_content_independent:
  "snd (loadPrecomputedModel laterSteps outcome content st) =
   snd (loadPrecomputedModel laterSteps outcome content st')"
  by (auto simp: loadPrecomputedModel_def Let_def
      split: option.splits fetch_outcome.splits prod.splits)

lemma load_failed_state:
  assumes "outcome = FetchFailed \<or> (\<exists>r. outcome = Response r \<and> truthy (resp_error r))"
  shows "fst (loadPrecomputedModel laterSteps outcome content st) = st"
  using assms
  by (auto simp: loadPrecomputedModel_def Let_def split: option.splits)

lemma load_later_throw:
  assumes "chartContainer content = Some cc" and "resp_result r = Some res"
    and "\<not> truthy (resp_error r)" and "laterSteps res = Some e"
    and "h_dates (historical res) \<noteq> []"
  shows "loadPrecomputedModel laterSteps (Response r) content st =
           (st\<lparr> analysisResults := Some res,
                 fullChartData := Some (historical res, forecast res) \<rparr>,
            content\<lparr> chartContainer := Some (CanvasIn newCanvas),
                     periodHandler := Some FromCanvas \<rparr>)"
proof -
  let ?blank = "content\<lparr> chartContainer := Some (CanvasIn newCanvas) \<rparr>"
  have cv: "forecastCanvas ?blank = Some newCanvas" by simp
  have ne: "h_dates (tileHistorical 12 (historical res)) \<noteq> []"
    using assms(5) by (simp add: tileHistorical_empty_iff)
  obtain c where c: "tileChart (tileHistorical 12 (historical res)) (forecast res) = Inr c"
    using tileChart_nonempty [OF ne] by blast
  have "renderTileForecastChart ?blank res 12 =
          (None, ?blank\<lparr> chartContainer := Some (CanvasIn \<lparr> fullData = Some res, chart = Some c \<rparr>) \<rparr>)"
    by (simp add: renderTile_canvas [OF cv] c)
  then show ?thesis
    using assms(1,2,3,4) by (simp add: loadPrecomputedModel_def Let_def)
qed

lemma renderEntries_string_ids:
  assumes "\<And>k v. (k, v) \<in> set cal \<Longrightarrow>
             \<exists>inds. v = Some inds \<and>
               (\<forall>ind. Some ind \<in> set inds \<longrightarrow> truthy_val (series_id ind) \<longrightarrow>
                      (\<exists>sid. series_id ind = JString sid))"
  shows "fst (renderEntries throws list cal) = None"
  using assms
proof (induction cal arbitrary: list)
  case Nil
  then show ?case by simp
next
  case (Cons entry rest)
  obtain k v where entry: "entry = (k, v)" by (cases entry)
  obtain inds where v: "v = Some inds"
    and ids: "\<forall>ind. Some ind \<in> set inds \<longrightarrow> truthy_val (series_id ind) \<longrightarrow>
                (\<exists>sid. series_id ind = JString sid)"
    using Cons.prems [of k v] entry by auto
  have none: "fst (renderIndicators throws (list @ [DateHeader k]) inds) = None"
    using ids by (intro renderIndicators_string_ids) blast
  obtain l where r: "renderIndicators throws (list @ [DateHeader k]) inds = (None, l)"
    using none by (cases "renderIndicators throws (list @ [DateHeader k]) inds") simp
  have "fst (renderEntries throws l rest) = None"
    using Cons.prems by (intro Cons.IH) auto
  then show ?case by (simp add: entry v r)
qed

lemma loadCalendar_isolates:
  assumes "\<And>k v. (k, v) \<in> set cal \<Longrightarrow>
             \<exists>inds. v = Some inds \<and>
               (\<forall>ind. Some ind \<in> set inds \<longrightarrow> truthy_val (series_id ind) \<longrightarrow>
                      (\<exists>sid. series_id ind = JString sid))"
    and "(dateKey, Some inds) \<in> set cal" and "Some ind \<in> set inds"
    and "makeTile ind = Inr t" and "truthy_val (series_id ind)" and "\<And>l. \<not> throws l t"
  shows "Tile t \<in> set (loadCalendar throws (Some cal))"
proof -
  have none: "fst (renderEntries throws [] cal) = None"
    using assms(1) by (rule renderEntries_string_ids)
  have "Tile t \<in> set (snd (renderEntries throws [] cal))"
    using assms(2,3,4,5) assms(6) none by (rule renderEntries_tile)
  then show ?thesis
    using none by (cases "renderEntries throws [] cal") (simp add: loadCalendar_def renderCalendar_def)
qed

section \<open>Claims about windowing\<close>

text \<open>
  Claim C1. For every result and every positive count, the window of the last \<open>count\<close>
  observations slices \<open>historical.dates\<close> and \<open>historical.values\<close> from
  \<open>max(0, len(historical.dates) - count)\<close> onward, on the tile path and on the main
  panel's path alike. The sliced dates have length \<open>min(count, len(historical.dates))\<close>,
  and so have the sliced values when the two historical arrays are aligned. When the
  count is at least the history length the slice is the whole history. The forecast is
  passed on as it is, and the stored result (\<open>canvas._fullData\<close>, or
  \<open>state.fullChartData\<close> and \<open>state.analysisResults\<close>), forecast and comparison
  included, is the one that was given.
\<close>

theorem window_lastN:
  assumes "0 < count"
  shows
    "fst (tileWindow d count) =
       \<lparr> h_dates = drop (nat (max 0 (int (length (h_dates (historical d))) - count)))
                      (h_dates (historical d)),
         h_values = drop (nat (max 0 (int (length (h_dates (historical d))) - count)))
                      (h_values (historical d)) \<rparr>
     \<and> slicedHist count (historical d) = fst (tileWindow d count)
     \<and> length (h_dates (fst (tileWindow d count)))
         = min (nat count) (length (h_dates (historical d)))
     \<and> (aligned_hist (historical d) \<longrightarrow>
          length (h_values (fst (tileWindow d count)))
            = min (nat count) (length (h_dates (historical d))))
     \<and> (int (length (h_dates (historical d))) \<le> count \<longrightarrow>
          fst (tileWindow d count) = historical d)
     \<and> snd (tileWindow d count) = forecast d
     \<and> (forecastCanvas content \<noteq> None \<longrightarrow>
          map_option fullData (forecastCanvas (snd (renderTileForecastChart content d count)))
            = Some (Some d))
     \<and> fullChartData (mainStep count st) = fullChartData st
     \<and> analysisResults (mainStep count st) = analysisResults st"
proof -
  have slice: "fst (tileWindow d count) =
       \<lparr> h_dates = drop (nat (max 0 (int (length (h_dates (historical d))) - count)))
                      (h_dates (historical d)),
         h_values = drop (nat (max 0 (int (length (h_dates (historical d))) - count)))
                      (h_values (historical d)) \<rparr>"
    using assms by (simp add: tileWindow_def tileHistorical_pos histStart_def)
  have same: "slicedHist count (historical d) = fst (tileWindow d count)"
    using assms by (simp add: tileWindow_def slicedHist_pos)
  have len: "length (h_dates (fst (tileWindow d count)))
         = min (nat count) (length (h_dates (historical d)))"
    using assms by (simp add: tileWindow_def length_dates_tileHistorical)
  have lenv: "aligned_hist (historical d) \<longrightarrow>
          length (h_values (fst (tileWindow d count)))
            = min (nat count) (length (h_dates (historical d)))"
    using assms by (simp add: tileWindow_def length_values_tileHistorical)
  have whole: "int (length (h_dates (historical d))) \<le> count \<longrightarrow>
          fst (tileWindow d count) = historical d"
    by (simp add: tileWindow_def tileHistorical_whole)
  have fc: "snd (tileWindow d count) = forecast d"
    by (simp add: tileWindow_def)
  have stored: "forecastCanvas content \<noteq> None \<longrightarrow>
          map_option fullData (forecastCanvas (snd (renderTileForecastChart content d count)))
            = Some (Some d)"
    by (auto simp: snd_renderTile_canvas)
  have kept: "fullChartData (mainStep count st) = fullChartData st"
    "analysisResults (mainStep count st) = analysisResults st"
    using handlePeriodChange_keeps [of count None st] by (simp_all add: mainStep_def)
  show ?thesis
    using slice same len lenv whole fc stored kept by blast
qed

text \<open>
  C1 at the sample result: the last 2 of 3 observations, and a count of 12 that exceeds
  the history.
\<close>

theorem window_lastN_witness:
  "(0 :: int) < 2
   \<and> fst (tileWindow example_result 2) = \<lparr> h_dates = [2, 3], h_values = [20, 30] \<rparr>
   \<and> slicedHist 2 (historical example_result) = \<lparr> h_dates = [2, 3], h_values = [20, 30] \<rparr>
   \<and> snd (tileWindow example_result 2) = forecast example_result
   \<and> aligned_hist (historical example_result)
   \<and> length (h_values (fst (tileWindow example_result 2))) = 2
   \<and> int (length (h_dates (historical example_result))) \<le> 12
   \<and> fst (tileWindow example_result 12) = historical example_result
   \<and> forecastCanvas example_tile \<noteq> None
   \<and> map_option fullData (forecastCanvas (snd (renderTileForecastChart example_tile example_result 2)))
       = Some (Some example_result)"
proof -
  have a: "aligned_hist (historical example_result)"
    by (simp add: aligned_hist_def example_result_def)
  have b: "int (length (h_dates (historical example_result))) \<le> 12"
    by (simp add: example_result_def)
  have c: "forecastCanvas example_tile \<noteq> None"
    by (simp add: example_tile_def forecastCanvas_def)
  have d: "drop (nat (max 0 (int (length (h_dates (historical example_result))) - 2)))
             (h_dates (historical example_result)) = [2, 3]"
    "drop (nat (max 0 (int (length (h_dates (historical example_result))) - 2)))
             (h_values (historical example_result)) = [20, 30]"
    by (simp_all add: example_result_def)
  show ?thesis
    using window_lastN [of 2 example_result example_tile example_state]
      window_lastN [of 12 example_result example_tile example_state] a b c d
    by simp
qed

text \<open>
  Claim C5. Windowing is idempotent: for positive counts \<open>c \<le> c'\<close>, windowing the
  slice of the last \<open>c\<close> observations again with \<open>c\<close> or with \<open>c'\<close> gives that same
  slice, on both paths.
\<close>

theorem window_idempotent:
  assumes "0 < c" and "c \<le> c'"
  shows
    "tileHistorical c' (tileHistorical c h) = tileHistorical c h
     \<and> tileHistorical c (tileHistorical c h) = tileHistorical c h
     \<and> slicedHist c' (slicedHist c h) = slicedHist c h
     \<and> slicedHist c (slicedHist c h) = slicedHist c h
     \<and> tileWindow (d\<lparr> historical := fst (tileWindow d c) \<rparr>) c' = tileWindow d c
     \<and> tileWindow (d\<lparr> historical := fst (tileWindow d c) \<rparr>) c = tileWindow d c"
proof -
  have c': "0 < c'" using assms by simp
  show ?thesis
    using assms c'
    by (simp add: slicedHist_pos tileHistorical_idem tileWindow_def)
qed

text \<open>C5 at the sample result with counts 2 and 24.\<close>

theorem window_idempotent_witness:
  "(0 :: int) < 2 \<and> (2 :: int) \<le> 24
   \<and> tileHistorical 2 (historical example_result) = \<lparr> h_dates = [2, 3], h_values = [20, 30] \<rparr>
   \<and> tileHistorical 24 (tileHistorical 2 (historical example_result))
       = tileHistorical 2 (historical example_result)
   \<and> tileHistorical 2 (tileHistorical 2 (historical example_result))
       = tileHistorical 2 (historical example_result)
   \<and> slicedHist 24 (slicedHist 2 (historical example_result))
       = slicedHist 2 (historical example_result)"
proof -
  have "tileHistorical 2 (historical example_result) = \<lparr> h_dates = [2, 3], h_values = [20, 30] \<rparr>"
    by (simp add: tileHistorical_pos histStart_def example_result_def)
  then show ?thesis
    using window_idempotent [of 2 24 "historical example_result" example_result] by simp
qed

section \<open>Claims about chart composition\<close>

text \<open>
  Claim C2. For every windowed slice that satisfies the data model's invariants (aligned
  arrays) and holds at least one observation, each composition (\<open>renderForecastChart\<close>,
  \<open>renderTileForecastChart\<close>, and the update in \<open>handlePeriodChange\<close> of a chart
  with six datasets) succeeds, its date axis is the windowed historical dates followed
  by the forecast dates, and every series it emits is as long as that axis.
\<close>

theorem compose_axis_lengths:
  assumes "aligned_hist h" and "aligned_forecast f" and "h_dates h \<noteq> []"
  shows
    "(\<exists>c. forecastChart h f = Inr c \<and> labels c = h_dates h @ f_dates f \<and>
          (\<forall>ds\<in>set (datasets c). length (data ds) = length (labels c)))
     \<and> (\<exists>c. tileChart h f = Inr c \<and> labels c = h_dates h @ f_dates f \<and>
          (\<forall>ds\<in>set (datasets c). length (data ds) = length (labels c)))
     \<and> (\<forall>c0. length (datasets c0) = 6 \<longrightarrow>
          (\<exists>hv fv c. historicalValues h f = Inr hv \<and> forecastValues h f = Inr fv \<and>
             updateChart h f hv fv c0 = (None, c) \<and> labels c = h_dates h @ f_dates f \<and>
             (\<forall>ds\<in>set (datasets c). length (data ds) = length (labels c))))"
  using forecastChart_lengths [OF assms] tileChart_lengths [OF assms]
    updateChart_lengths [OF assms]
  by blast

text \<open>
  C2 at the sample result windowed to its last 2 observations.
\<close>

theorem compose_axis_lengths_witness:
  "aligned_hist (fst (tileWindow example_result 2))
   \<and> aligned_forecast (snd (tileWindow example_result 2))
   \<and> h_dates (fst (tileWindow example_result 2)) = [2, 3]
   \<and> (\<exists>c. tileChart (fst (tileWindow example_result 2)) (snd (tileWindow example_result 2)) = Inr c
          \<and> labels c = [2, 3, 4, 5]
          \<and> map (length \<circ> data) (datasets c) = [4, 4, 4, 4])
   \<and> (\<exists>c. forecastChart (fst (tileWindow example_result 2)) (snd (tileWindow example_result 2)) = Inr c
          \<and> labels c = [2, 3, 4, 5]
          \<and> map (length \<circ> data) (datasets c) = [4, 4, 4, 4, 4, 4])"
proof -
  let ?h = "fst (tileWindow example_result 2)" and ?f = "snd (tileWindow example_result 2)"
  have h: "?h = \<lparr> h_dates = [2, 3], h_values = [20, 30] \<rparr>"
    by (simp add: tileWindow_def tileHistorical_pos histStart_def example_result_def)
  have f: "?f = forecast example_result" by (simp add: tileWindow_def)
  have a: "aligned_hist ?h" by (simp add: h aligned_hist_def)
  have b: "aligned_forecast ?f"
    unfolding f by (simp add: aligned_forecast_def example_result_def)
  have n: "h_dates ?h \<noteq> []" by (simp add: h)
  have t: "tileChart ?h ?f = Inr c \<Longrightarrow> map (length \<circ> data) (datasets c) = [4, 4, 4, 4]" for c
    using tileChart_nonempty [OF n, of ?f] unfolding h f by (auto simp: example_result_def)
  have m: "forecastChart ?h ?f = Inr c \<Longrightarrow> map (length \<circ> data) (datasets c) = [4, 4, 4, 4, 4, 4]" for c
    using forecastChart_nonempty [OF n, of ?f] unfolding h f by (auto simp: example_result_def)
  have l: "h_dates ?h @ f_dates ?f = [2, 3, 4, 5]"
    unfolding h f by (simp add: example_result_def)
  show ?thesis
    using compose_axis_lengths [OF a b n] a b t m l by (auto simp: h)
qed

text \<open>
  Claim C3. For a windowed slice with \<open>H \<ge> 1\<close> aligned historical observations
  and \<open>F\<close> forecast values (one per forecast date), \<open>historicalValues\<close> is the \<open>H\<close>
  historical values followed by \<open>F\<close> absence markers, and \<open>forecastValues\<close> is
  \<open>H - 1\<close> absence markers, then the last historical value at position \<open>H - 1\<close>,
  then the \<open>F\<close> forecast values. These are datasets 0 and 1 of the main chart and of
  the tile chart.
\<close>

theorem compose_series:
  assumes "aligned_hist h" and "h_dates h \<noteq> []" and "length (f_values f) = length (f_dates f)"
  shows
    "historicalValues h f = Inr (map Val (h_values h) @ replicate (length (f_values f)) Null)
     \<and> forecastValues h f =
         Inr (replicate (length (h_dates h) - 1) Null @ [Val (last (h_values h))]
              @ map Val (f_values f))
     \<and> (\<exists>hv fv. historicalValues h f = Inr hv \<and> forecastValues h f = Inr fv
          \<and> length hv = length (h_dates h) + length (f_values f)
          \<and> length fv = length (h_dates h) + length (f_values f)
          \<and> fv ! (length (h_dates h) - 1) = Val (h_values h ! (length (h_dates h) - 1))
          \<and> (\<exists>c. forecastChart h f = Inr c
                \<and> datasets c ! 0 = \<lparr> label = Historical, data = hv, fill = NoFillOption \<rparr>
                \<and> datasets c ! 1 = \<lparr> label = Forecast, data = fv, fill = NoFillOption \<rparr>)
          \<and> (\<exists>c. tileChart h f = Inr c
                \<and> datasets c ! 0 = \<lparr> label = Historical, data = hv, fill = NoFillOption \<rparr>
                \<and> datasets c ! 1 = \<lparr> label = Forecast, data = fv, fill = NoFillOption \<rparr>))"
proof -
  have ne: "h_values h \<noteq> []" using assms(1,2) by (auto simp: aligned_hist_def)
  have len: "length (h_values h) = length (h_dates h)" using assms(1) by (simp add: aligned_hist_def)
  have pos: "0 < length (h_dates h)" using assms(2) by simp
  have hv: "historicalValues h f = Inr (map Val (h_values h) @ replicate (length (f_values f)) Null)"
    by (simp add: historicalValues_eq assms(3))
  have fv: "forecastValues h f =
         Inr (replicate (length (h_dates h) - 1) Null @ [Val (last (h_values h))]
              @ map Val (f_values f))"
    by (simp add: forecastValues_nonempty [OF assms(2)] index_cell_last [OF ne])
  have join: "(replicate (length (h_dates h) - 1) Null @ [Val (last (h_values h))]
              @ map Val (f_values f)) ! (length (h_dates h) - 1)
              = Val (h_values h ! (length (h_dates h) - 1))"
    using ne len by (simp add: nth_append last_conv_nth)
  have l1: "length (map Val (h_values h) @ replicate (length (f_values f)) (Null :: 'b cell))
              = length (h_dates h) + length (f_values f)"
    by (simp add: len)
  have l2: "length (replicate (length (h_dates h) - 1) Null @ [Val (last (h_values h))]
              @ map Val (f_values f)) = length (h_dates h) + length (f_values f)"
    using pos by simp
  have c1: "\<exists>c. forecastChart h f = Inr c
      \<and> datasets c ! 0 = \<lparr> label = Historical,
            data = map Val (h_values h) @ replicate (length (f_values f)) Null,
            fill = NoFillOption \<rparr>
      \<and> datasets c ! 1 = \<lparr> label = Forecast,
            data = replicate (length (h_dates h) - 1) Null @ [Val (last (h_values h))]
                     @ map Val (f_values f),
            fill = NoFillOption \<rparr>"
    by (simp add: forecastChart_nonempty [OF assms(2)] index_cell_last [OF ne] assms(3))
  have c2: "\<exists>c. tileChart h f = Inr c
      \<and> datasets c ! 0 = \<lparr> label = Historical,
            data = map Val (h_values h) @ replicate (length (f_values f)) Null,
            fill = NoFillOption \<rparr>
      \<and> datasets c ! 1 = \<lparr> label = Forecast,
            data = replicate (length (h_dates h) - 1) Null @ [Val (last (h_values h))]
                     @ map Val (f_values f),
            fill = NoFillOption \<rparr>"
    by (simp add: tileChart_nonempty [OF assms(2)] index_cell_last [OF ne] assms(3))
  show ?thesis
    using hv fv join l1 l2 c1 c2 by blast
qed

text \<open>
  C3 at the sample result windowed to its last 2 observations.
\<close>

theorem compose_series_witness:
  "aligned_hist (fst (tileWindow example_result 2))
   \<and> h_dates (fst (tileWindow example_result 2)) = [2, 3]
   \<and> length (f_values (forecast example_result)) = length (f_dates (forecast example_result))
   \<and> historicalValues (fst (tileWindow example_result 2)) (forecast example_result)
       = Inr [Val 20, Val 30, Null, Null]
   \<and> forecastValues (fst (tileWindow example_result 2)) (forecast example_result)
       = Inr [Null, Val 30, Val 40, Val 50]"
proof -
  let ?h = "fst (tileWindow example_result 2)" and ?f = "forecast example_result"
  have h: "?h = \<lparr> h_dates = [2, 3], h_values = [20, 30] \<rparr>"
    by (simp add: tileWindow_def tileHistorical_pos histStart_def example_result_def)
  have a: "aligned_hist ?h" by (simp add: h aligned_hist_def)
  have n: "h_dates ?h \<noteq> []" by (simp add: h)
  have l: "length (f_values ?f) = length (f_dates ?f)" by (simp add: example_result_def)
  have e1: "map Val (h_values ?h) @ replicate (length (f_values ?f)) Null
              = [Val 20, Val 30, Null, Null]"
    unfolding h by (simp add: example_result_def)
  have e2: "replicate (length (h_dates ?h) - 1) Null @ [Val (last (h_values ?h))]
              @ map Val (f_values ?f) = [Null, Val 30, Val 40, Val 50]"
    unfolding h by (simp add: example_result_def)
  show ?thesis
    using compose_series [OF a n l] a l e1 e2 by (simp add: h)
qed

text \<open>
  Claim C4, as stated, says that composition emits all four band series for every
  windowed slice. The tile chart does not: for the sample result windowed to 2
  observations \<open>renderTileForecastChart\<close> builds the historical and forecast series
  and the one-sigma pair only.
\<close>

theorem tile_chart_bands_counterexample:
  "(case tileChart (fst (tileWindow example_result 2)) (snd (tileWindow example_result 2)) of
      Inl e \<Rightarrow> [] | Inr c \<Rightarrow> map label (datasets c))
   = [Historical, Forecast, Plus1Sigma, Minus1Sigma]"
proof -
  have h: "fst (tileWindow example_result 2) = \<lparr> h_dates = [2, 3], h_values = [20, 30] \<rparr>"
    by (simp add: tileWindow_def tileHistorical_pos histStart_def example_result_def)
  have n: "h_dates (fst (tileWindow example_result 2)) \<noteq> []" by (simp add: h)
  show ?thesis by (simp add: tileChart_nonempty [OF n])
qed

text \<open>
  Claim C4, amended. For a non-empty windowed slice with aligned forecast arrays the
  main chart (\<open>renderForecastChart\<close>, and \<open>handlePeriodChange\<close> updating a chart of
  six datasets) carries the four band series, in the order +2, +1, -1, -2 sigma, and
  the tile chart carries the +1 and -1 sigma pair only. Each band is absence markers
  across the whole historical range followed by the band's values across the forecast
  range, so all have one length.
\<close>

theorem band_series:
  assumes "h_dates h \<noteq> []" and "aligned_forecast f"
  shows
    "(\<exists>c. forecastChart h f = Inr c
         \<and> map label (drop 2 (datasets c)) = [Plus2Sigma, Plus1Sigma, Minus1Sigma, Minus2Sigma]
         \<and> map data (drop 2 (datasets c)) =
             [replicate (length (h_dates h)) Null @ map Val (sigma_2_up f),
              replicate (length (h_dates h)) Null @ map Val (sigma_1_up f),
              replicate (length (h_dates h)) Null @ map Val (sigma_1_down f),
              replicate (length (h_dates h)) Null @ map Val (sigma_2_down f)]
         \<and> (\<forall>ds\<in>set (drop 2 (datasets c)).
               length (data ds) = length (h_dates h) + length (f_dates f)))
     \<and> (\<forall>c0. length (datasets c0) = 6 \<longrightarrow>
          (\<exists>c. snd (updateChart h f hv fv c0) = c
             \<and> map data (drop 2 (datasets c)) =
                 [replicate (length (h_dates h)) Null @ map Val (sigma_2_up f),
                  replicate (length (h_dates h)) Null @ map Val (sigma_1_up f),
                  replicate (length (h_dates h)) Null @ map Val (sigma_1_down f),
                  replicate (length (h_dates h)) Null @ map Val (sigma_2_down f)]
             \<and> map label (drop 2 (datasets c)) = map label (drop 2 (datasets c0))))
     \<and> (\<exists>c. tileChart h f = Inr c
         \<and> map label (drop 2 (datasets c)) = [Plus1Sigma, Minus1Sigma]
         \<and> map data (drop 2 (datasets c)) =
             [replicate (length (h_dates h)) Null @ map Val (sigma_1_up f),
              replicate (length (h_dates h)) Null @ map Val (sigma_1_down f)]
         \<and> (\<forall>ds\<in>set (drop 2 (datasets c)).
               length (data ds) = length (h_dates h) + length (f_dates f)))"
proof -
  have m: "\<exists>c. forecastChart h f = Inr c
         \<and> map label (drop 2 (datasets c)) = [Plus2Sigma, Plus1Sigma, Minus1Sigma, Minus2Sigma]
         \<and> map data (drop 2 (datasets c)) =
             [replicate (length (h_dates h)) Null @ map Val (sigma_2_up f),
              replicate (length (h_dates h)) Null @ map Val (sigma_1_up f),
              replicate (length (h_dates h)) Null @ map Val (sigma_1_down f),
              replicate (length (h_dates h)) Null @ map Val (sigma_2_down f)]
         \<and> (\<forall>ds\<in>set (drop 2 (datasets c)).
               length (data ds) = length (h_dates h) + length (f_dates f))"
    using assms(2)
    by (simp add: forecastChart_nonempty [OF assms(1)] aligned_forecast_def)
  have u: "\<forall>c0. length (datasets c0) = 6 \<longrightarrow>
          (\<exists>c. snd (updateChart h f hv fv c0) = c
             \<and> map data (drop 2 (datasets c)) =
                 [replicate (length (h_dates h)) Null @ map Val (sigma_2_up f),
                  replicate (length (h_dates h)) Null @ map Val (sigma_1_up f),
                  replicate (length (h_dates h)) Null @ map Val (sigma_1_down f),
                  replicate (length (h_dates h)) Null @ map Val (sigma_2_down f)]
             \<and> map label (drop 2 (datasets c)) = map label (drop 2 (datasets c0)))"
  proof (intro allI impI)
    fix c0 :: "('a, 'b) chart"
    assume six: "length (datasets c0) = 6"
    then obtain a b c d e g where ds: "datasets c0 = [a, b, c, d, e, g]"
      by (auto simp: length_Suc_conv eval_nat_numeral)
    show "\<exists>c. snd (updateChart h f hv fv c0) = c
             \<and> map data (drop 2 (datasets c)) =
                 [replicate (length (h_dates h)) Null @ map Val (sigma_2_up f),
                  replicate (length (h_dates h)) Null @ map Val (sigma_1_up f),
                  replicate (length (h_dates h)) Null @ map Val (sigma_1_down f),
                  replicate (length (h_dates h)) Null @ map Val (sigma_2_down f)]
             \<and> map label (drop 2 (datasets c)) = map label (drop 2 (datasets c0))"
      by (simp add: updateChart_six [OF six] ds)
  qed
  have t: "\<exists>c. tileChart h f = Inr c
         \<and> map label (drop 2 (datasets c)) = [Plus1Sigma, Minus1Sigma]
         \<and> map data (drop 2 (datasets c)) =
             [replicate (length (h_dates h)) Null @ map Val (sigma_1_up f),
              replicate (length (h_dates h)) Null @ map Val (sigma_1_down f)]
         \<and> (\<forall>ds\<in>set (drop 2 (datasets c)).
               length (data ds) = length (h_dates h) + length (f_dates f))"
    using assms(2)
    by (simp add: tileChart_nonempty [OF assms(1)] aligned_forecast_def)
  show ?thesis using m u t by blast
qed

text \<open>
  The amended C4 at the sample result windowed to its last 2 observations.
\<close>

theorem band_series_witness:
  "h_dates (fst (tileWindow example_result 2)) = [2, 3]
   \<and> aligned_forecast (forecast example_result)
   \<and> (\<exists>c. forecastChart (fst (tileWindow example_result 2)) (forecast example_result) = Inr c
         \<and> map data (drop 2 (datasets c)) =
             [[Null, Null, Val 42, Val 52], [Null, Null, Val 41, Val 51],
              [Null, Null, Val 39, Val 49], [Null, Null, Val 38, Val 48]])
   \<and> (\<exists>c. tileChart (fst (tileWindow example_result 2)) (forecast example_result) = Inr c
         \<and> map data (drop 2 (datasets c)) =
             [[Null, Null, Val 41, Val 51], [Null, Null, Val 39, Val 49]])"
proof -
  let ?h = "fst (tileWindow example_result 2)" and ?f = "forecast example_result"
  have h: "?h = \<lparr> h_dates = [2, 3], h_values = [20, 30] \<rparr>"
    by (simp add: tileWindow_def tileHistorical_pos histStart_def example_result_def)
  have n: "h_dates ?h \<noteq> []" by (simp add: h)
  have b: "aligned_forecast ?f" by (simp add: aligned_forecast_def example_result_def)
  have e: "replicate (length (h_dates ?h)) Null @ map Val (sigma_2_up ?f) = [Null, Null, Val 42, Val 52]"
    "replicate (length (h_dates ?h)) Null @ map Val (sigma_1_up ?f) = [Null, Null, Val 41, Val 51]"
    "replicate (length (h_dates ?h)) Null @ map Val (sigma_1_down ?f) = [Null, Null, Val 39, Val 49]"
    "replicate (length (h_dates ?h)) Null @ map Val (sigma_2_down ?f) = [Null, Null, Val 38, Val 48]"
    unfolding h by (simp_all add: example_result_def)
  have d: "h_dates ?h = [2, 3]" by (simp add: h)
  show ?thesis
    using band_series [OF n b, where hv = "[]" and fv = "[]"] b d unfolding e by auto
qed

text \<open>
  Claim C10. Composition needs at least one historical observation. With non-empty
  windowed dates every composition returns a chart (whose series all have the axis
  length when the arrays are aligned). With empty dates \<open>Array(historical.dates.length - 1)\<close>
  is \<open>Array(-1)\<close> and throws a \<open>RangeError\<close>, so no chart is produced: the
  index read next to it (\<open>undefined\<close> on empty values) is never reached. Windowing
  gives empty dates exactly when the stored history is empty; then
  \<open>renderForecastChart\<close>, \<open>renderTileForecastChart\<close> and \<open>handlePeriodChange\<close>
  all end with that exception.
\<close>

theorem compose_needs_history:
  "(h_dates h \<noteq> [] \<longrightarrow>
      (\<exists>xs. forecastValues h f = Inr xs) \<and> (\<exists>c. forecastChart h f = Inr c) \<and>
      (\<exists>c. tileChart h f = Inr c) \<and>
      (aligned_hist h \<and> aligned_forecast f \<longrightarrow>
         (\<exists>c. forecastChart h f = Inr c \<and> labels c = h_dates h @ f_dates f \<and>
              (\<forall>ds\<in>set (datasets c). length (data ds) = length (labels c))) \<and>
         (\<exists>c. tileChart h f = Inr c \<and> labels c = h_dates h @ f_dates f \<and>
              (\<forall>ds\<in>set (datasets c). length (data ds) = length (labels c)))))
   \<and> (h_dates h = [] \<longrightarrow>
        forecastValues h f = Inl RangeError \<and> forecastChart h f = Inl RangeError \<and>
        tileChart h f = Inl RangeError)
   \<and> (h_values h = [] \<longrightarrow> index_cell (h_values h) (int (length (h_values h)) - 1) = Undefined)
   \<and> (h_dates (tileHistorical p h) = [] \<longleftrightarrow> h_dates h = [])
   \<and> (h_dates (slicedHist p h) = [] \<longleftrightarrow> h_dates h = [])
   \<and> (h_dates (historical d) = [] \<longrightarrow>
        fst (renderForecastChart d st) = Some RangeError \<and>
        (forecastCanvas content \<noteq> None \<longrightarrow>
           fst (renderTileForecastChart content d p) = Some RangeError \<and>
           map_option chart (forecastCanvas (snd (renderTileForecastChart content d p)))
             = Some None) \<and>
        (analysisResults st \<noteq> None \<and> fullChartData st = Some (historical d, forecast d) \<longrightarrow>
           handlePeriodChange p t st = (Some RangeError, st, t)))"
proof -
  have ok: "h_dates h \<noteq> [] \<longrightarrow>
      (\<exists>xs. forecastValues h f = Inr xs) \<and> (\<exists>c. forecastChart h f = Inr c) \<and>
      (\<exists>c. tileChart h f = Inr c)"
    by (simp add: forecastValues_nonempty forecastChart_nonempty tileChart_nonempty)
  have wf: "h_dates h \<noteq> [] \<longrightarrow> aligned_hist h \<and> aligned_forecast f \<longrightarrow>
         (\<exists>c. forecastChart h f = Inr c \<and> labels c = h_dates h @ f_dates f \<and>
              (\<forall>ds\<in>set (datasets c). length (data ds) = length (labels c))) \<and>
         (\<exists>c. tileChart h f = Inr c \<and> labels c = h_dates h @ f_dates f \<and>
              (\<forall>ds\<in>set (datasets c). length (data ds) = length (labels c)))"
    using forecastChart_lengths [of h f] tileChart_lengths [of h f] by blast
  have bad: "h_dates h = [] \<longrightarrow>
        forecastValues h f = Inl RangeError \<and> forecastChart h f = Inl RangeError \<and>
        tileChart h f = Inl RangeError"
    by (simp add: forecastValues_empty forecastChart_empty tileChart_empty)
  have rd: "h_values h = [] \<longrightarrow> index_cell (h_values h) (int (length (h_values h)) - 1) = Undefined"
    by (simp add: index_cell_def)
  have paths: "h_dates (historical d) = [] \<longrightarrow>
        fst (renderForecastChart d st) = Some RangeError \<and>
        (forecastCanvas content \<noteq> None \<longrightarrow>
           fst (renderTileForecastChart content d p) = Some RangeError \<and>
           map_option chart (forecastCanvas (snd (renderTileForecastChart content d p)))
             = Some None) \<and>
        (analysisResults st \<noteq> None \<and> fullChartData st = Some (historical d, forecast d) \<longrightarrow>
           handlePeriodChange p t st = (Some RangeError, st, t))"
    by (auto simp: renderForecastChart_empty renderTile_empty handlePeriodChange_empty)
  show ?thesis
    using ok wf bad rd paths tileHistorical_empty_iff [of p h] slicedHist_empty_iff [of p h]
    by blast
qed

text \<open>
  C10 at the sample result and at a result with an empty history.
\<close>

theorem compose_needs_history_witness:
  "h_dates (historical example_result) \<noteq> []
   \<and> aligned_hist (historical example_result) \<and> aligned_forecast (forecast example_result)
   \<and> (\<exists>c. forecastChart (historical example_result) (forecast example_result) = Inr c
          \<and> labels c = [1, 2, 3, 4, 5])
   \<and> h_dates \<lparr> h_dates = [] :: nat list, h_values = [] :: int list \<rparr> = []
   \<and> forecastChart \<lparr> h_dates = [], h_values = [] \<rparr> (forecast example_result) = Inl RangeError
   \<and> tileChart \<lparr> h_dates = [], h_values = [] \<rparr> (forecast example_result) = Inl RangeError
   \<and> fst (renderTileForecastChart example_tile
            (example_result\<lparr> historical := \<lparr> h_dates = [], h_values = [] \<rparr> \<rparr>) 12)
       = Some RangeError"
proof -
  let ?e = "\<lparr> h_dates = [] :: nat list, h_values = [] :: int list \<rparr>"
  let ?d = "example_result\<lparr> historical := ?e \<rparr>"
  have n: "h_dates (historical example_result) \<noteq> []" by (simp add: example_result_def)
  have a: "aligned_hist (historical example_result) \<and> aligned_forecast (forecast example_result)"
    by (simp add: aligned_hist_def aligned_forecast_def example_result_def)
  have l: "h_dates (historical example_result) @ f_dates (forecast example_result) = [1, 2, 3, 4, 5]"
    by (simp add: example_result_def)
  have e: "h_dates ?e = []" by simp
  have ed: "h_dates (historical ?d) = []" by simp
  have c: "forecastCanvas example_tile \<noteq> None"
    by (simp add: example_tile_def forecastCanvas_def)
  note G = compose_needs_history [of "historical example_result" "forecast example_result"
      12 ?d example_state example_tile None]
  note B = compose_needs_history [of ?e "forecast example_result" 12 ?d example_state
      example_tile None]
  have g: "\<exists>c. forecastChart (historical example_result) (forecast example_result) = Inr c
          \<and> labels c = [1, 2, 3, 4, 5]"
    using G [THEN conjunct1, THEN mp, OF n] a l by auto
  have b: "forecastChart ?e (forecast example_result) = Inl RangeError
      \<and> tileChart ?e (forecast example_result) = Inl RangeError"
    using B [THEN conjunct2, THEN conjunct1, THEN mp, OF e] by simp
  have r: "fst (renderTileForecastChart example_tile ?d 12) = Some RangeError"
    using B ed c by blast
  show ?thesis using n a g e b r by blast
qed

section \<open>Claims about re-windowing\<close>



section \<open>Claims about failure isolation\<close>

text \<open>
  Claim C7 says that a failure of one tile (an invalid calendar entry, an exception
  while rendering the tile, a failed load) never keeps the remaining tiles from being
  rendered. The code does this for what its guard and its \<open>try\<close> cover
  (\<open>loadCalendar_isolates\<close>), but the tile is built before the \<open>try\<close>: for an
  indicator whose \<open>series_id\<close> is the number 123 the guard lets it through,
  \<open>series_id.replace\<close> throws, \<open>renderCalendar\<close> ends after the first date header,
  and \<open>loadCalendar\<close> replaces the list by its error message. The two valid indicators
  of that calendar are rendered once the offending entry is taken out.
\<close>

theorem calendar_numeric_id_aborts:
  "renderCalendar no_throws numeric_id_calendar = (Some TypeError, [DateHeader ''2024-01-05''])
   \<and> loadCalendar no_throws (Some numeric_id_calendar)
       = [PlaceholderMessage ''Error loading calendar data.'']
   \<and> loadCalendar no_throws
         (Some [(''2024-01-05'', Some [Some \<lparr> series_id = JString ''GDP'', ind_type = Absent \<rparr>]),
                (''2024-01-12'',
                 Some [Some \<lparr> series_id = JString ''CPI-U'', ind_type = JString ''fred'' \<rparr>])])
       = [DateHeader ''2024-01-05'',
          Tile \<lparr> tile_id = ''tile-GDP'', dataType = JString ''fred'',
                 tile_indicator = \<lparr> series_id = JString ''GDP'', ind_type = Absent \<rparr> \<rparr>,
          DateHeader ''2024-01-12'',
          Tile \<lparr> tile_id = ''tile-CPI_U'', dataType = JString ''fred'',
                 tile_indicator = \<lparr> series_id = JString ''CPI-U'', ind_type = JString ''fred'' \<rparr> \<rparr>]"
  by (simp add: renderCalendar_def loadCalendar_def numeric_id_calendar_def no_throws_def
      makeTile_def truthy_val_def tileId_def isAlnum_def)

section \<open>Claims about analyze requests\<close>

text \<open>
  Claim C8, as stated, says every analyze request carries the parameter of the
  selected model. A tile's request does not for the moving-average and Monte Carlo
  models: \<open>runTileAnalysis\<close> never sends \<open>windows\<close> or \<open>simulations\<close>.
\<close>

theorem tile_request_windows_counterexample:
  "windows (runTileAnalysis_request ''GDP''
      \<lparr> model_type_select = ''MovingAverage'', order_p = Num 1, order_d = Num 1,
        order_q = Num 1, n_test_input = Num 12, h_future_input = Num 6 \<rparr>) = None
   \<and> simulations (runTileAnalysis_request ''GDP''
      \<lparr> model_type_select = ''MonteCarlo'', order_p = Num 1, order_d = Num 1,
        order_q = Num 1, n_test_input = Num 12, h_future_input = Num 6 \<rparr>) = None"
  by (simp add: runTileAnalysis_request_def Let_def)

text \<open>
  Claim C8, amended. A request built by \<open>runAnalysis\<close> through \<open>getModelParams\<close>
  carries \<open>order = [p, d, q]\<close> for ARIMA, \<open>windows\<close> for MovingAverage and
  \<open>simulations\<close> for MonteCarlo (and only that one of the three), with \<open>n_test\<close> and
  \<open>h_future\<close>. A request built by \<open>runTileAnalysis\<close> always carries \<open>n_test\<close> and
  \<open>h_future\<close> (defaults 12 and 6), carries \<open>order\<close> exactly for ARIMA, and never
  carries \<open>windows\<close> or \<open>simulations\<close>.
\<close>

theorem analyze_request_shape:
  "(modelType = ''ARIMA'' \<longrightarrow>
      order (runAnalysis_request sid modelType form) = Some [paramP form, paramD form, paramQ form]
      \<and> windows (runAnalysis_request sid modelType form) = None
      \<and> simulations (runAnalysis_request sid modelType form) = None)
   \<and> (modelType = ''MovingAverage'' \<longrightarrow>
      windows (runAnalysis_request sid modelType form) = Some (maWindows form)
      \<and> order (runAnalysis_request sid modelType form) = None
      \<and> simulations (runAnalysis_request sid modelType form) = None)
   \<and> (modelType = ''MonteCarlo'' \<longrightarrow>
      simulations (runAnalysis_request sid modelType form) = Some (mcSims form)
      \<and> order (runAnalysis_request sid modelType form) = None
      \<and> windows (runAnalysis_request sid modelType form) = None)
   \<and> (modelType \<in> {''ARIMA'', ''MovingAverage'', ''MonteCarlo''} \<longrightarrow>
      n_test (runAnalysis_request sid modelType form) = Some (nTest form)
      \<and> h_future (runAnalysis_request sid modelType form) = Some (hFuture form))
   \<and> model_type (runAnalysis_request sid modelType form) = modelType
   \<and> sent_series_id (runAnalysis_request sid modelType form) = sid
   \<and> n_test (runTileAnalysis_request sid tform) = Some (Num (orDefault (n_test_input tform) 12))
   \<and> h_future (runTileAnalysis_request sid tform) = Some (Num (orDefault (h_future_input tform) 6))
   \<and> order (runTileAnalysis_request sid tform) =
       (if model_type_select tform = ''ARIMA''
        then Some [Num (orDefault (order_p tform) 1), Num (orDefault (order_d tform) 1),
                   Num (orDefault (order_q tform) 1)]
        else None)
   \<and> windows (runTileAnalysis_request sid tform) = None
   \<and> simulations (runTileAnalysis_request sid tform) = None
   \<and> model_type (runTileAnalysis_request sid tform) = model_type_select tform
   \<and> sent_series_id (runTileAnalysis_request sid tform) = sid"
proof -
  have main: "modelType \<in> {''ARIMA'', ''MovingAverage'', ''MonteCarlo''} \<Longrightarrow>
      \<exists>ps. getModelParams modelType form = Some ps \<and> n_test ps = Some (nTest form)
            \<and> h_future ps = Some (hFuture form)"
    by (auto simp: getModelParams_cases)
  have nh: "modelType \<in> {''ARIMA'', ''MovingAverage'', ''MonteCarlo''} \<longrightarrow>
      n_test (runAnalysis_request sid modelType form) = Some (nTest form)
      \<and> h_future (runAnalysis_request sid modelType form) = Some (hFuture form)"
    using main by (auto simp: runAnalysis_request_def)
  have a: "modelType = ''ARIMA'' \<longrightarrow>
      order (runAnalysis_request sid modelType form) = Some [paramP form, paramD form, paramQ form]
      \<and> windows (runAnalysis_request sid modelType form) = None
      \<and> simulations (runAnalysis_request sid modelType form) = None"
    by (simp add: runAnalysis_request_def getModelParams_cases)
  have m: "modelType = ''MovingAverage'' \<longrightarrow>
      windows (runAnalysis_request sid modelType form) = Some (maWindows form)
      \<and> order (runAnalysis_request sid modelType form) = None
      \<and> simulations (runAnalysis_request sid modelType form) = None"
    by (simp add: runAnalysis_request_def getModelParams_cases)
  have c: "modelType = ''MonteCarlo'' \<longrightarrow>
      simulations (runAnalysis_request sid modelType form) = Some (mcSims form)
      \<and> order (runAnalysis_request sid modelType form) = None
      \<and> windows (runAnalysis_request sid modelType form) = None"
    by (simp add: runAnalysis_request_def getModelParams_cases)
  have ids: "model_type (runAnalysis_request sid modelType form) = modelType
      \<and> sent_series_id (runAnalysis_request sid modelType form) = sid"
    by (simp add: runAnalysis_request_def split: option.splits)
  have t: "n_test (runTileAnalysis_request sid tform) = Some (Num (orDefault (n_test_input tform) 12))
   \<and> h_future (runTileAnalysis_request sid tform) = Some (Num (orDefault (h_future_input tform) 6))
   \<and> order (runTileAnalysis_request sid tform) =
       (if model_type_select tform = ''ARIMA''
        then Some [Num (orDefault (order_p tform) 1), Num (orDefault (order_d tform) 1),
                   Num (orDefault (order_q tform) 1)]
        else None)
   \<and> windows (runTileAnalysis_request sid tform) = None
   \<and> simulations (runTileAnalysis_request sid tform) = None
   \<and> model_type (runTileAnalysis_request sid tform) = model_type_select tform
   \<and> sent_series_id (runTileAnalysis_request sid tform) = sid"
    by (simp add: runTileAnalysis_request_def Let_def)
  show ?thesis using a m c nh ids t by blast
qed

text \<open>
  The amended C8 for a main-panel moving-average request and a tile ARIMA request.
\<close>

theorem analyze_request_shape_witness:
  "''MovingAverage'' \<in> {''ARIMA'', ''MovingAverage'', ''MonteCarlo''}
   \<and> runAnalysis_request ''GDP'' ''MovingAverage''
        \<lparr> nTest = Num 12, hFuture = Num 6, paramP = Num 1, paramD = Num 1, paramQ = Num 1,
          maWindows = [Num 3, Num 6], mcSims = Num 1000 \<rparr>
       = \<lparr> order = None, windows = Some [Num 3, Num 6], simulations = None,
           n_test = Some (Num 12), h_future = Some (Num 6),
           sent_series_id = ''GDP'', model_type = ''MovingAverage'' \<rparr>
   \<and> runTileAnalysis_request ''GDP''
        \<lparr> model_type_select = ''ARIMA'', order_p = Num 0, order_d = Num 1, order_q = NaN,
          n_test_input = Num 24, h_future_input = NaN \<rparr>
       = \<lparr> order = Some [Num 1, Num 1, Num 1], windows = None, simulations = None,
           n_test = Some (Num 24), h_future = Some (Num 6),
           sent_series_id = ''GDP'', model_type = ''ARIMA'' \<rparr>"
proof -
  let ?form = "\<lparr> nTest = Num 12, hFuture = Num 6, paramP = Num 1, paramD = Num 1, paramQ = Num 1,
          maWindows = [Num 3, Num 6], mcSims = Num 1000 \<rparr>"
  let ?tform = "\<lparr> model_type_select = ''ARIMA'', order_p = Num 0, order_d = Num 1, order_q = NaN,
          n_test_input = Num 24, h_future_input = NaN \<rparr>"
  note S = analyze_request_shape [of "''MovingAverage''" "''GDP''" ?form ?tform]
  have d: "orDefault (Num 0) 1 = 1" "orDefault NaN 1 = 1" "orDefault (Num 1) 1 = 1"
    "orDefault (Num 24) 12 = 24" "orDefault NaN 6 = 6"
    by (simp_all add: orDefault_def)
  have m: "''MovingAverage'' \<in> {''ARIMA'', ''MovingAverage'', ''MonteCarlo''}" by simp
  have r1: "runAnalysis_request ''GDP'' ''MovingAverage'' ?form
       = \<lparr> order = None, windows = Some [Num 3, Num 6], simulations = None,
           n_test = Some (Num 12), h_future = Some (Num 6),
           sent_series_id = ''GDP'', model_type = ''MovingAverage'' \<rparr>"
    using S m by (cases "runAnalysis_request ''GDP'' ''MovingAverage'' ?form") simp
  have r2: "runTileAnalysis_request ''GDP'' ?tform
       = \<lparr> order = Some [Num 1, Num 1, Num 1], windows = None, simulations = None,
           n_test = Some (Num 24), h_future = Some (Num 6),
           sent_series_id = ''GDP'', model_type = ''ARIMA'' \<rparr>"
    using S d by (cases "runTileAnalysis_request ''GDP'' ?tform") simp
  show ?thesis using m r1 r2 by blast
qed

end
